theory Spec2Isabelle
  imports Main "HOL-Library.Sublist"
begin

section \<open>Values shared by the SSH service\<close>

text \<open>
  The module under study is the SSH service of the backend: \<open>getConnectionDetails\<close>,
  \<open>establishSshConnection\<close>, \<open>testConnection\<close> and \<open>testUnsavedConnection\<close>.
  Its collaborators (connection and proxy repositories, the key service, \<open>decrypt\<close>, the
  ssh2 client, the SOCKS client and the HTTP request) live outside the module.  The lookups
  are parameters of the model: a lookup returns a row or nothing, and \<open>decrypt\<close> returns
  the plaintext or throws.  Everything the module does to a collaborator is written to a
  trace of effects, in program order.
\<close>

subsection \<open>JavaScript values\<close>

text \<open>A nullable column is an \<open>option\<close>; \<open>None\<close> is \<open>null\<close>/\<open>undefined\<close>.\<close>

definition truthy_string :: "string option \<Rightarrow> bool" where
  "truthy_string v = (case v of None \<Rightarrow> False | Some s \<Rightarrow> s \<noteq> [])"

definition truthy_number :: "int option \<Rightarrow> bool" where
  "truthy_number v = (case v of None \<Rightarrow> False | Some n \<Rightarrow> n \<noteq> 0)"

text \<open>\<open>v || undefined\<close> on a nullable string.\<close>

definition or_undefined :: "string option \<Rightarrow> string option" where
  "or_undefined v = (if truthy_string v then v else None)"

text \<open>Template interpolation of an integer: its decimal digits.\<close>

fun string_of_nat :: "nat \<Rightarrow> string" where
  "string_of_nat n =
     (if n < 10 then [char_of (48 + n)]
      else string_of_nat (n div 10) @ [char_of (48 + n mod 10)])"

declare string_of_nat.simps [simp del]

definition string_of_int :: "int \<Rightarrow> string" where
  "string_of_int i = (if i < 0 then ''-'' @ string_of_nat (nat (- i)) else string_of_nat (nat i))"

subsection \<open>Errors\<close>

text \<open>
  Every \<open>new Error(...)\<close> of the module is one constructor, carrying the values its
  template interpolates.  The two rethrowing \<open>catch\<close> blocks build their message from the
  message of the error they caught, so they wrap it.  \<open>Thrown\<close> is an error object
  produced by a collaborator (decrypt, the transport, the repository), known by its message.
\<close>

datatype error =
    ConnectionNotFound int
  | ConnectionNullField int string
  | SshKeyNotFound int
  | ConnProxyNullField int string
  | ConnProxyInvalidType int string
  | CredentialsFailed error
  | SelectedSshKeyNotFound int
  | ProxyNotFound int
  | ProxyNullField int string
  | ProxyInvalidType int string
  | ProxyCredentialsFailed error
  | Socks5Failed string int string
  | HttpProxyStatus string int nat
  | HttpProxyRequestError string int string
  | HttpProxyTimeout string int
  | UnsupportedProxyType string
  | Thrown string

text \<open>
  The message of each error.  The interpolated values are exact; the fixed text of a
  template written in Chinese in the source is given in English here.
\<close>

fun message :: "error \<Rightarrow> string" where
  "message (ConnectionNotFound cid) =
     ''Connection config ID '' @ string_of_int cid @ '' not found.''"
| "message (ConnectionNullField cid f) =
     ''Connection ID '' @ string_of_int cid @ '' has null '' @ f @ ''.''"
| "message (SshKeyNotFound k) =
     ''Associated SSH key (ID: '' @ string_of_int k @ '') not found.''"
| "message (ConnProxyNullField cid f) =
     ''Proxy for Connection ID '' @ string_of_int cid @ '' has null '' @ f @ ''.''"
| "message (ConnProxyInvalidType cid t) =
     ''Proxy for Connection ID '' @ string_of_int cid @ '' has invalid type: '' @ t"
| "message (CredentialsFailed e) = ''Processing credentials failed: '' @ message e"
| "message (SelectedSshKeyNotFound k) =
     ''Selected SSH key (ID: '' @ string_of_int k @ '') not found.''"
| "message (ProxyNotFound pid) = ''Proxy ID '' @ string_of_int pid @ '' not found.''"
| "message (ProxyNullField pid f) =
     ''Proxy ID '' @ string_of_int pid @ '' has null '' @ f @ ''.''"
| "message (ProxyInvalidType pid t) =
     ''Proxy ID '' @ string_of_int pid @ '' has invalid type: '' @ t"
| "message (ProxyCredentialsFailed e) = ''Processing proxy credentials failed: '' @ message e"
| "message (Socks5Failed h p m) =
     ''SOCKS5 proxy '' @ h @ '':'' @ string_of_int p @ '' connection failed: '' @ m"
| "message (HttpProxyStatus h p code) =
     ''HTTP proxy '' @ h @ '':'' @ string_of_int p @ '' connection failed (status code: ''
       @ string_of_nat code @ '')''"
| "message (HttpProxyRequestError h p m) =
     ''HTTP proxy '' @ h @ '':'' @ string_of_int p @ '' request error: '' @ m"
| "message (HttpProxyTimeout h p) =
     ''HTTP proxy '' @ h @ '':'' @ string_of_int p @ '' connection timed out''"
| "message (UnsupportedProxyType t) = ''Unsupported proxy type: '' @ t"
| "message (Thrown m) = m"

section \<open>Records of the data model\<close>

text \<open>
  The row returned by \<open>ConnectionRepository.findFullConnectionById\<close>: the connection
  joined with its proxy.  Every column that the module guards with \<open>??\<close> or tests for
  truthiness is nullable.
\<close>

record raw_connection =
  raw_id :: int
  raw_name :: "string option"
  raw_host :: "string option"
  raw_port :: "int option"
  raw_username :: "string option"
  raw_auth_method :: "string option"
  encrypted_password :: "string option"
  encrypted_private_key :: "string option"
  encrypted_passphrase :: "string option"
  ssh_key_id :: "int option"
  proxy_db_id :: "int option"
  proxy_name :: "string option"
  proxy_type :: "string option"
  proxy_host :: "string option"
  proxy_port :: "int option"
  proxy_username :: "string option"
  proxy_encrypted_password :: "string option"

text \<open>The row returned by \<open>ProxyRepository.findProxyById\<close>.\<close>

record raw_proxy =
  rp_id :: int
  rp_name :: "string option"
  rp_type :: "string option"
  rp_host :: "string option"
  rp_port :: "int option"
  rp_username :: "string option"
  rp_encrypted_password :: "string option"

text \<open>The value returned by \<open>SshKeyService.getDecryptedSshKeyById\<close>.\<close>

record stored_key =
  sk_privateKey :: string
  sk_passphrase :: "string option"

text \<open>The \<open>proxy\<close> member of \<open>DecryptedConnectionDetails\<close>.\<close>

record resolved_proxy =
  px_id :: int
  px_name :: string
  px_type :: string
  px_host :: string
  px_port :: int
  px_username :: "string option"
  px_password :: "string option"

text \<open>\<open>DecryptedConnectionDetails\<close>.\<close>

record details =
  conn_id :: int
  conn_name :: string
  conn_host :: string
  conn_port :: int
  conn_username :: string
  auth_method :: string
  password :: "string option"
  privateKey :: "string option"
  passphrase :: "string option"
  proxy :: "resolved_proxy option"

text \<open>The argument of \<open>testUnsavedConnection\<close>.\<close>

record unsaved_config =
  cfg_host :: string
  cfg_port :: int
  cfg_username :: string
  cfg_auth_method :: string
  cfg_password :: "string option"
  cfg_private_key :: "string option"
  cfg_passphrase :: "string option"
  cfg_ssh_key_id :: "int option"
  cfg_proxy_id :: "int option"

text \<open>\<open>ConnectConfig\<close> of ssh2, as the module fills it; a socket is known by a number.\<close>

record connect_config =
  cc_host :: string
  cc_port :: int
  cc_username :: string
  cc_password :: "string option"
  cc_privateKey :: "string option"
  cc_passphrase :: "string option"
  readyTimeout :: nat
  keepaliveInterval :: nat
  keepaliveCountMax :: nat
  cc_sock :: "nat option"

text \<open>\<open>SocksClientOptions\<close>: the proxy, the \<open>connect\<close> command, the destination.\<close>

record socks_options =
  so_proxy_host :: string
  so_proxy_port :: int
  so_proxy_type :: nat
  so_userId :: "string option"
  so_password :: "string option"
  so_command :: string
  so_dest_host :: string
  so_dest_port :: int
  so_timeout :: nat

text \<open>
  \<open>http.RequestOptions\<close> of the CONNECT request.  The value of the
  \<open>Proxy-Authorization\<close> header is \<open>Basic\<close> followed by the base64 text of
  \<open>username:password\<close>; the header list keeps the text before the encoding.
\<close>

datatype header_value = Plain string | BasicBase64 string

record request_options =
  ro_method :: string
  ro_host :: string
  ro_port :: int
  ro_path :: string
  ro_timeout :: nat
  ro_agent :: bool
  ro_headers :: "(string \<times> header_value) list option"

section \<open>Effects\<close>

text \<open>
  What the module does to the outside, in program order.  A console call is known by its
  level and the line of the source that makes it.  A \<open>decrypt\<close> call is known by the
  column whose ciphertext it is given, and the ciphertext.
\<close>

datatype level = Log | Warn | Err

datatype column =
    EncryptedPassword | EncryptedPrivateKey | EncryptedPassphrase | ProxyEncryptedPassword

datatype effect =
    Console level nat
  | FindFullConnectionById int
  | FindProxyById int
  | GetDecryptedSshKeyById int
  | Decrypt column string
  | UpdateLastConnected int int
  | NewClient
  | ClientConnect connect_config
  | ClientEnd
  | SocksCreateConnection socks_options
  | HttpRequest request_options
  | RequestEnd
  | RequestDestroy
  | SocketDestroy nat
  | Resolve
  | Reject error
  | UnhandledError error

text \<open>The lookups and the cipher the module is given.\<close>

record env =
  findFullConnectionById :: "int \<Rightarrow> raw_connection option"
  findProxyById :: "int \<Rightarrow> raw_proxy option"
  getDecryptedSshKeyById :: "int \<Rightarrow> stored_key option"
  decrypt :: "string \<Rightarrow> string + string"

text \<open>A computation that may throw: the effects it made, and the error or the value.\<close>

type_synonym 'a action = "effect list \<times> (error + 'a)"

text \<open>\<open>v ?? (() => { throw e })()\<close>\<close>

definition required :: "'a option \<Rightarrow> error \<Rightarrow> error + 'a" where
  "required v e = (case v of None \<Rightarrow> Inl e | Some x \<Rightarrow> Inr x)"

text \<open>\<open>decrypt(c)\<close>: the call is recorded; a failure of the cipher is thrown.\<close>

definition decrypt_call :: "env \<Rightarrow> column \<Rightarrow> string \<Rightarrow> string action" where
  "decrypt_call env col c =
     ([Decrypt col c], case decrypt env c of Inl m \<Rightarrow> Inl (Thrown m) | Inr plain \<Rightarrow> Inr plain)"

section \<open>getConnectionDetails\<close>

text \<open>
  The object literal of lines 52-65: the five mandatory columns are read in order and the
  first null one throws.
\<close>

definition initial_details :: "int \<Rightarrow> raw_connection \<Rightarrow> error + details" where
  "initial_details connectionId raw =
     (case required (raw_name raw) (ConnectionNullField connectionId ''name'') of
        Inl e \<Rightarrow> Inl e
      | Inr n \<Rightarrow>
     (case required (raw_host raw) (ConnectionNullField connectionId ''host'') of
        Inl e \<Rightarrow> Inl e
      | Inr h \<Rightarrow>
     (case required (raw_port raw) (ConnectionNullField connectionId ''port'') of
        Inl e \<Rightarrow> Inl e
      | Inr p \<Rightarrow>
     (case required (raw_username raw) (ConnectionNullField connectionId ''username'') of
        Inl e \<Rightarrow> Inl e
      | Inr u \<Rightarrow>
     (case required (raw_auth_method raw) (ConnectionNullField connectionId ''auth_method'') of
        Inl e \<Rightarrow> Inl e
      | Inr a \<Rightarrow>
          Inr \<lparr>conn_id = raw_id raw, conn_name = n, conn_host = h, conn_port = p,
               conn_username = u, auth_method = a, password = None, privateKey = None,
               passphrase = None, proxy = None\<rparr>)))))"

text \<open>Lines 67-93: the password, or the key (the stored key first, then the inline key).\<close>

definition resolve_credentials :: "env \<Rightarrow> int \<Rightarrow> raw_connection \<Rightarrow> details \<Rightarrow> details action" where
  "resolve_credentials env connectionId raw d =
     (if auth_method d = ''password'' \<and> truthy_string (encrypted_password raw) then
        (case decrypt_call env EncryptedPassword (the (encrypted_password raw)) of
           (t, Inl e) \<Rightarrow> (t, Inl e)
         | (t, Inr plain) \<Rightarrow> (t, Inr (d\<lparr>password := Some plain\<rparr>)))
      else if auth_method d = ''key'' then
        (if truthy_number (ssh_key_id raw) then
           (case getDecryptedSshKeyById env (the (ssh_key_id raw)) of
              None \<Rightarrow>
                ([Console Log 75, GetDecryptedSshKeyById (the (ssh_key_id raw)), Console Err 78],
                 Inl (SshKeyNotFound (the (ssh_key_id raw))))
            | Some k \<Rightarrow>
                ([Console Log 75, GetDecryptedSshKeyById (the (ssh_key_id raw)), Console Log 83],
                 Inr (d\<lparr>privateKey := Some (sk_privateKey k), passphrase := sk_passphrase k\<rparr>)))
         else if truthy_string (encrypted_private_key raw) then
           (case decrypt_call env EncryptedPrivateKey (the (encrypted_private_key raw)) of
              (t, Inl e) \<Rightarrow> (t, Inl e)
            | (t, Inr key) \<Rightarrow>
                (if truthy_string (encrypted_passphrase raw) then
                   (case decrypt_call env EncryptedPassphrase (the (encrypted_passphrase raw)) of
                      (t', Inl e) \<Rightarrow> (t @ t', Inl e)
                    | (t', Inr phrase) \<Rightarrow>
                        (t @ t', Inr (d\<lparr>privateKey := Some key, passphrase := Some phrase\<rparr>)))
                 else (t, Inr (d\<lparr>privateKey := Some key\<rparr>))))
         else ([Console Warn 91], Inr d))
      else ([], Inr d))"

text \<open>Lines 95-117: the proxy joined to the connection, if there is one.\<close>

definition resolve_proxy :: "env \<Rightarrow> int \<Rightarrow> raw_connection \<Rightarrow> details \<Rightarrow> details action" where
  "resolve_proxy env connectionId raw d =
     (if truthy_number (proxy_db_id raw) then
        (case required (proxy_name raw) (ConnProxyNullField connectionId ''name'') of
           Inl e \<Rightarrow> ([], Inl e)
         | Inr proxyName \<Rightarrow>
        (case required (proxy_type raw) (ConnProxyNullField connectionId ''type'') of
           Inl e \<Rightarrow> ([], Inl e)
         | Inr proxyType \<Rightarrow>
        (case required (proxy_host raw) (ConnProxyNullField connectionId ''host'') of
           Inl e \<Rightarrow> ([], Inl e)
         | Inr proxyHost \<Rightarrow>
        (case required (proxy_port raw) (ConnProxyNullField connectionId ''port'') of
           Inl e \<Rightarrow> ([], Inl e)
         | Inr proxyPort \<Rightarrow>
            (if proxyType \<noteq> ''SOCKS5'' \<and> proxyType \<noteq> ''HTTP'' then
               ([], Inl (ConnProxyInvalidType connectionId proxyType))
             else
               (case (if truthy_string (proxy_encrypted_password raw)
                      then (case decrypt_call env ProxyEncryptedPassword
                                   (the (proxy_encrypted_password raw)) of
                              (t, Inl e) \<Rightarrow> (t, Inl e)
                            | (t, Inr plain) \<Rightarrow> (t, Inr (Some plain)))
                      else ([], Inr None)) of
                  (t, Inl e) \<Rightarrow> (t, Inl e)
                | (t, Inr pw) \<Rightarrow>
                    (t, Inr (d\<lparr>proxy := Some \<lparr>px_id = the (proxy_db_id raw), px_name = proxyName,
                                 px_type = proxyType, px_host = proxyHost, px_port = proxyPort,
                                 px_username = or_undefined (proxy_username raw),
                                 px_password = pw\<rparr>\<rparr>))))))))
      else ([], Inr d))"

text \<open>The body of the \<open>try\<close> block, lines 52-119.\<close>

definition resolve_body :: "env \<Rightarrow> int \<Rightarrow> raw_connection \<Rightarrow> details action" where
  "resolve_body env connectionId raw =
     (case initial_details connectionId raw of
        Inl e \<Rightarrow> ([], Inl e)
      | Inr d0 \<Rightarrow>
          (case resolve_credentials env connectionId raw d0 of
             (t1, Inl e) \<Rightarrow> (t1, Inl e)
           | (t1, Inr d1) \<Rightarrow>
               (case resolve_proxy env connectionId raw d1 of
                  (t2, Inl e) \<Rightarrow> (t1 @ t2, Inl e)
                | (t2, Inr d2) \<Rightarrow> (t1 @ t2 @ [Console Log 118], Inr d2))))"

text \<open>
  Lines 44-124.  A missing row throws outside the \<open>try\<close>; whatever the body throws is
  logged and thrown again inside a new error.
\<close>

definition getConnectionDetails :: "env \<Rightarrow> int \<Rightarrow> details action" where
  "getConnectionDetails env connectionId =
     (case findFullConnectionById env connectionId of
        None \<Rightarrow>
          ([Console Log 45, FindFullConnectionById connectionId],
           Inl (ConnectionNotFound connectionId))
      | Some raw \<Rightarrow>
          (case resolve_body env connectionId raw of
             (t, Inl e) \<Rightarrow>
               ([Console Log 45, FindFullConnectionById connectionId] @ t @ [Console Err 121],
                Inl (CredentialsFailed e))
           | (t, Inr d) \<Rightarrow>
               ([Console Log 45, FindFullConnectionById connectionId] @ t, Inr d)))"

section \<open>establishSshConnection\<close>

text \<open>
  The promise executor runs at once and leaves an attempt behind: the listeners attached to
  the client, the promise, and the callbacks that wait for the proxy or the repository.
  What happens next is decided by the events that arrive, one at a time.

  Every call into a library is recorded.  Three of them may throw while they are called,
  and the attempt carries whether they do: \<open>sshClient.end()\<close>, which the source calls
  inside a \<open>try\<close>; \<open>sshClient.connect()\<close>, which ssh2 makes throw on a
  configuration it refuses (a private key it cannot parse); and \<open>http.request()\<close>,
  which throws on options it refuses.  Where such a throw goes depends on the place of the
  call: out of the promise executor (lines 251 and 276), where the promise machinery
  rejects the promise and no code of the module runs; into the \<open>catch\<close> callback of the
  SOCKS promise (lines 228-235); or out of the \<open>connect\<close> listener of the request
  (line 256), where nothing catches it.  \<open>SocksClient.createConnection\<close> returns a
  promise, and \<open>destroy\<close> returns; what the calls lead to arrives as a later event.
\<close>

definition CONNECT_TIMEOUT :: nat where "CONNECT_TIMEOUT = 20000"
definition TEST_TIMEOUT :: nat where "TEST_TIMEOUT = 15000"

datatype handler = ReadyHandler | ErrorHandler | CloseHandler | EnhancedReadyHandler

datatype promise_state = Pending | Resolved | Rejected error

text \<open>
  A listener is the event name, the function, and whether it was attached with \<open>once\<close>.
  \<open>awaitingUpdate\<close> holds the seconds passed to \<open>updateLastConnected\<close> while
  \<open>readyHandler\<close> is suspended at its \<open>await\<close>; \<open>socksPending\<close> says that the
  promise of \<open>createConnection\<close> has not settled yet.
\<close>

record library =
  end_throws :: "error option"
  connect_throws :: "error option"
  request_throws :: "error option"

record attempt =
  connDetails :: details
  connectConfig :: connect_config
  lib :: library
  listeners :: "(string \<times> handler \<times> bool) list"
  promise :: promise_state
  awaitingUpdate :: "int option"
  socksPending :: bool
  trace :: "effect list"

datatype event =
    SshReady int
  | SshError error
  | SshClose
  | UpdateSettled "error option"
  | SocksSettled "string + nat"
  | HttpConnect nat nat
  | HttpError string
  | HttpTimeout

text \<open>
  \<open>SshReady now\<close>: the client emits \<open>ready\<close>, and \<open>Date.now()\<close> reads \<open>now\<close> in
  the handler.  \<open>UpdateSettled\<close>: the promise of \<open>updateLastConnected\<close> settles,
  \<open>None\<close> when fulfilled.  \<open>SocksSettled\<close>: the promise of \<open>createConnection\<close>
  settles, with a message or a socket.  \<open>HttpConnect code socket\<close>, \<open>HttpError\<close> and
  \<open>HttpTimeout\<close> are the events of the CONNECT request.
\<close>

definition did :: "effect list \<Rightarrow> attempt \<Rightarrow> attempt" where
  "did es s = s\<lparr>trace := trace s @ es\<rparr>"

text \<open>Settling a promise that is already settled changes nothing; the call is recorded.\<close>

definition resolve :: "attempt \<Rightarrow> attempt" where
  "resolve s =
     (did [Resolve] s)\<lparr>promise := (if promise s = Pending then Resolved else promise s)\<rparr>"

definition reject :: "error \<Rightarrow> attempt \<Rightarrow> attempt" where
  "reject e s =
     (did [Reject e] s)\<lparr>promise := (if promise s = Pending then Rejected e else promise s)\<rparr>"

text \<open>
  An exception that leaves the promise executor: the promise is rejected with it, unless
  it is settled already.  No function of the module is called.
\<close>

definition executor_throw :: "error \<Rightarrow> attempt \<Rightarrow> attempt" where
  "executor_throw e s =
     s\<lparr>promise := (if promise s = Pending then Rejected e else promise s)\<rparr>"

text \<open>
  \<open>removeListener(name, f)\<close> removes at most one listener, the one attached last among
  those whose function is \<open>f\<close>.
\<close>

fun remove_first :: "('a \<Rightarrow> bool) \<Rightarrow> 'a list \<Rightarrow> 'a list" where
  "remove_first P [] = []"
| "remove_first P (x # xs) = (if P x then xs else x # remove_first P xs)"

definition removeListener :: "string \<Rightarrow> handler \<Rightarrow> attempt \<Rightarrow> attempt" where
  "removeListener name f s =
     s\<lparr>listeners := rev (remove_first (\<lambda>(n, g, once). n = name \<and> g = f) (rev (listeners s)))\<rparr>"

text \<open>Lines 152-166, up to the \<open>await\<close>.\<close>

definition readyHandler :: "int \<Rightarrow> attempt \<Rightarrow> attempt" where
  "readyHandler now s =
     (let s1 = removeListener ''error'' ErrorHandler (did [Console Log 153] s);
          currentTimeSeconds = now div 1000
      in (did [UpdateLastConnected (conn_id (connDetails s)) currentTimeSeconds] s1)
           \<lparr>awaitingUpdate := Some currentTimeSeconds\<rparr>)"

text \<open>Lines 159-165: the rest of \<open>readyHandler\<close>, once the update has settled.\<close>

definition updateSettled :: "error option \<Rightarrow> attempt \<Rightarrow> attempt" where
  "updateSettled r s =
     (case awaitingUpdate s of
        None \<Rightarrow> s
      | Some t \<Rightarrow>
          resolve (did [case r of None \<Rightarrow> Console Log 159 | Some updateError \<Rightarrow> Console Err 162]
                       (s\<lparr>awaitingUpdate := None\<rparr>)))"

text \<open>Lines 168-184.\<close>

definition errorHandler :: "error \<Rightarrow> attempt \<Rightarrow> attempt" where
  "errorHandler err s =
     (let s1 = removeListener ''ready'' ReadyHandler s;
          s2 = removeListener ''error'' ErrorHandler s1;
          s3 = removeListener ''close'' CloseHandler s2;
          s4 = did [Console Err 174, ClientEnd] s3;
          s5 = (case end_throws (lib s) of
                  None \<Rightarrow> s4
                | Some endError \<Rightarrow> did [Console Err 180] s4)
      in reject err s5)"

text \<open>Lines 186-193.\<close>

definition closeHandler :: "attempt \<Rightarrow> attempt" where
  "closeHandler s =
     removeListener ''close'' CloseHandler
       (removeListener ''error'' ErrorHandler
          (removeListener ''ready'' ReadyHandler s))"

text \<open>Lines 197-201.\<close>

definition enhancedReadyHandler :: "int \<Rightarrow> attempt \<Rightarrow> attempt" where
  "enhancedReadyHandler now s =
     readyHandler now
       (removeListener ''close'' CloseHandler (removeListener ''error'' ErrorHandler s))"

text \<open>Lines 211-215.\<close>

definition handleProxyError :: "error \<Rightarrow> attempt \<Rightarrow> attempt" where
  "handleProxyError proxyError s = errorHandler proxyError (did [Console Err 212] s)"

fun invoke :: "handler \<Rightarrow> event \<Rightarrow> attempt \<Rightarrow> attempt" where
  "invoke EnhancedReadyHandler (SshReady now) s = enhancedReadyHandler now s"
| "invoke ReadyHandler (SshReady now) s = readyHandler now s"
| "invoke ErrorHandler (SshError e) s = errorHandler e s"
| "invoke CloseHandler SshClose s = closeHandler s"
| "invoke f ev s = s"

text \<open>
  \<open>emit\<close> of the client: the listeners of the event, as they are when the event is
  emitted, are called in the order they were attached; a \<open>once\<close> listener is removed
  before it is called.  An \<open>error\<close> event with no listener is thrown by the emitter into
  the code that emitted it, and nothing of the attempt runs: \<open>UnhandledError\<close> records
  an exception that no code of the module catches.
\<close>

definition emit :: "string \<Rightarrow> event \<Rightarrow> attempt \<Rightarrow> attempt" where
  "emit name ev s =
     (let ls = filter (\<lambda>(n, f, once). n = name) (listeners s)
      in if ls = [] then (case ev of SshError e \<Rightarrow> did [UnhandledError e] s | _ \<Rightarrow> s)
         else fold (\<lambda>(n, f, once) s'. invoke f ev (if once then removeListener n f s' else s'))
                ls s)"

text \<open>
  The proxy of an attempt that took the HTTP branch of the executor and whose
  \<open>http.request()\<close> returned; only such an attempt has listeners on a CONNECT request.
\<close>

definition http_proxy :: "attempt \<Rightarrow> resolved_proxy option" where
  "http_proxy s =
     (case proxy (connDetails s) of
        None \<Rightarrow> None
      | Some p \<Rightarrow>
          if px_type p \<noteq> ''SOCKS5'' \<and> px_type p = ''HTTP'' \<and> request_throws (lib s) = None
          then Some p else None)"

text \<open>
  Lines 228-235 and 252-268: the callbacks of the proxy, and the events of the client.  A
  \<open>connect()\<close> that throws inside the \<open>then\<close> callback of the SOCKS promise is
  caught by the \<open>catch\<close> callback that follows it, which reports the message of what it
  caught.  A \<open>connect()\<close> that throws inside the \<open>connect\<close> listener of the request
  is caught by nothing.
\<close>

fun step :: "event \<Rightarrow> attempt \<Rightarrow> attempt" where
  "step (SshReady now) s = emit ''ready'' (SshReady now) s"
| "step (SshError e) s = emit ''error'' (SshError e) s"
| "step SshClose s = emit ''close'' SshClose s"
| "step (UpdateSettled r) s = updateSettled r s"
| "step (SocksSettled r) s =
     (if socksPending s then
        (case r of
           Inr socket \<Rightarrow>
             (let cfg = (connectConfig s)\<lparr>cc_sock := Some socket\<rparr>;
                  s1 = (did [Console Log 229, ClientConnect cfg] s)
                         \<lparr>connectConfig := cfg, socksPending := False\<rparr>
              in case connect_throws (lib s) of
                   None \<Rightarrow> s1
                 | Some socksError \<Rightarrow>
                     handleProxyError
                       (Socks5Failed (px_host (the (proxy (connDetails s))))
                                     (px_port (the (proxy (connDetails s))))
                                     (message socksError)) s1)
         | Inl m \<Rightarrow>
             handleProxyError
               (Socks5Failed (px_host (the (proxy (connDetails s))))
                             (px_port (the (proxy (connDetails s)))) m)
               (s\<lparr>socksPending := False\<rparr>))
      else s)"
| "step (HttpConnect statusCode socket) s =
     (case http_proxy s of
        None \<Rightarrow> s
      | Some p \<Rightarrow>
          (if statusCode = 200 then
             (let cfg = (connectConfig s)\<lparr>cc_sock := Some socket\<rparr>;
                  s1 = (did [Console Log 254, ClientConnect cfg] s)\<lparr>connectConfig := cfg\<rparr>
              in case connect_throws (lib s) of
                   None \<Rightarrow> s1
                 | Some e \<Rightarrow> did [UnhandledError e] s1)
           else
             handleProxyError (HttpProxyStatus (px_host p) (px_port p) statusCode)
               (did [SocketDestroy socket] s)))"
| "step (HttpError m) s =
     (case http_proxy s of
        None \<Rightarrow> s
      | Some p \<Rightarrow> handleProxyError (HttpProxyRequestError (px_host p) (px_port p) m) s)"
| "step HttpTimeout s =
     (case http_proxy s of
        None \<Rightarrow> s
      | Some p \<Rightarrow>
          handleProxyError (HttpProxyTimeout (px_host p) (px_port p)) (did [RequestDestroy] s))"

text \<open>
  Lines 137-150 and 204-277: the executor of the promise.  \<open>http.request()\<close> (line
  251) and, without a proxy, \<open>connect()\<close> (line 276) are called by the executor itself.
\<close>

definition establishSshConnection :: "library \<Rightarrow> details \<Rightarrow> nat \<Rightarrow> attempt" where
  "establishSshConnection lb d timeout =
     (let cfg = \<lparr>cc_host = conn_host d, cc_port = conn_port d, cc_username = conn_username d,
                 cc_password = password d, cc_privateKey = privateKey d,
                 cc_passphrase = passphrase d, readyTimeout = timeout,
                 keepaliveInterval = 5000, keepaliveCountMax = 10, cc_sock = None\<rparr>;
          s0 = \<lparr>connDetails = d, connectConfig = cfg, lib = lb,
                listeners = [(''ready'', EnhancedReadyHandler, True),
                             (''error'', ErrorHandler, False),
                             (''close'', CloseHandler, False)],
                promise = Pending, awaitingUpdate = None, socksPending = False,
                trace = [NewClient]\<rparr>
      in case proxy d of
           None \<Rightarrow>
             (let s1 = did [Console Log 275, ClientConnect cfg] s0
              in case connect_throws lb of
                   None \<Rightarrow> s1
                 | Some e \<Rightarrow> executor_throw e s1)
         | Some p \<Rightarrow>
             (if px_type p = ''SOCKS5'' then
                (did [Console Log 219,
                      SocksCreateConnection
                        \<lparr>so_proxy_host = px_host p, so_proxy_port = px_port p, so_proxy_type = 5,
                         so_userId = px_username p, so_password = px_password p,
                         so_command = ''connect'', so_dest_host = cc_host cfg,
                         so_dest_port = cc_port cfg, so_timeout = readyTimeout cfg\<rparr>] s0)
                  \<lparr>socksPending := True\<rparr>
              else if px_type p = ''HTTP'' then
                (let s1 =
                   did [Console Log 219, Console Log 238,
                        HttpRequest
                          \<lparr>ro_method = ''CONNECT'', ro_host = px_host p, ro_port = px_port p,
                           ro_path = cc_host cfg @ '':'' @ string_of_int (cc_port cfg),
                           ro_timeout = readyTimeout cfg, ro_agent = False,
                           ro_headers =
                             (if truthy_string (px_username p) then
                                Some [(''Proxy-Authorization'',
                                       BasicBase64 (the (px_username p) @ '':'' @
                                         (if truthy_string (px_password p)
                                          then the (px_password p) else []))),
                                      (''Proxy-Connection'', Plain ''Keep-Alive''),
                                      (''Host'',
                                       Plain (cc_host cfg @ '':'' @
                                              string_of_int (cc_port cfg)))]
                              else None)\<rparr>] s0
                 in case request_throws lb of
                      None \<Rightarrow> did [RequestEnd] s1
                    | Some e \<Rightarrow> executor_throw e s1)
              else
                handleProxyError (UnsupportedProxyType (px_type p)) (did [Console Log 219] s0)))"

text \<open>All the events of a list, in order.\<close>

fun run :: "attempt \<Rightarrow> event list \<Rightarrow> attempt" where
  "run s [] = s"
| "run s (e # es) = run (step e s) es"

text \<open>
  \<open>await\<close> on the promise of an attempt: events arrive until the promise is settled; the
  code after the \<open>await\<close> runs before any later event.  When the events end and the
  promise is still pending, the \<open>await\<close> has not returned.
\<close>

fun await_settled :: "attempt \<Rightarrow> event list \<Rightarrow> attempt" where
  "await_settled s [] = s"
| "await_settled s (e # es) = (if promise s = Pending then await_settled (step e s) es else s)"

section \<open>testConnection\<close>

text \<open>
  Lines 306-331.  \<open>startTime\<close> and \<open>endTime\<close> are the two readings of
  \<open>Date.now()\<close>.  The result is \<open>None\<close> when the call has not returned: the events
  have ended and the promise of the attempt is still pending.  \<open>sshClient\<close> is assigned
  only when the \<open>await\<close> returns a client, so the \<open>finally\<close> block ends the client
  on that path alone; an \<open>end()\<close> that throws there replaces the result.
\<close>

definition testConnection ::
  "env \<Rightarrow> library \<Rightarrow> int \<Rightarrow> int \<Rightarrow> int \<Rightarrow> event list \<Rightarrow> int action option" where
  "testConnection env lb connectionId startTime endTime events =
     (case getConnectionDetails env connectionId of
        (t, Inl e) \<Rightarrow> Some ([Console Log 307] @ t @ [Console Err 322], Inl e)
      | (t, Inr resolved) \<Rightarrow>
          (let s = await_settled (establishSshConnection lb resolved TEST_TIMEOUT) events
           in case promise s of
                Pending \<Rightarrow> None
              | Rejected e \<Rightarrow>
                  Some ([Console Log 307] @ t @ trace s @ [Console Err 322], Inl e)
              | Resolved \<Rightarrow>
                  (case end_throws lb of
                     None \<Rightarrow>
                       Some ([Console Log 307] @ t @ trace s @
                               [Console Log 319, ClientEnd, Console Log 328],
                             Inr (endTime - startTime))
                   | Some endError \<Rightarrow>
                       Some ([Console Log 307] @ t @ trace s @ [Console Log 319, ClientEnd],
                             Inl endError))))"

section \<open>testUnsavedConnection\<close>

text \<open>Lines 357-369: the temporary details, with the identifier \<open>-1\<close>.\<close>

definition temp_details :: "unsaved_config \<Rightarrow> details" where
  "temp_details cfg =
     \<lparr>conn_id = - 1, conn_name = ''Test-'' @ cfg_host cfg, conn_host = cfg_host cfg,
      conn_port = cfg_port cfg, conn_username = cfg_username cfg,
      auth_method = cfg_auth_method cfg, password = None, privateKey = None,
      passphrase = None, proxy = None\<rparr>"

text \<open>Lines 371-389.\<close>

definition unsaved_credentials :: "env \<Rightarrow> unsaved_config \<Rightarrow> details \<Rightarrow> details action" where
  "unsaved_credentials env cfg d =
     (if auth_method d = ''password'' then ([], Inr (d\<lparr>password := cfg_password cfg\<rparr>))
      else if truthy_number (cfg_ssh_key_id cfg) then
        (case getDecryptedSshKeyById env (the (cfg_ssh_key_id cfg)) of
           None \<Rightarrow>
             ([Console Log 377, GetDecryptedSshKeyById (the (cfg_ssh_key_id cfg))],
              Inl (SelectedSshKeyNotFound (the (cfg_ssh_key_id cfg))))
         | Some k \<Rightarrow>
             ([Console Log 377, GetDecryptedSshKeyById (the (cfg_ssh_key_id cfg))],
              Inr (d\<lparr>privateKey := Some (sk_privateKey k), passphrase := sk_passphrase k\<rparr>)))
      else ([], Inr (d\<lparr>privateKey := cfg_private_key cfg, passphrase := cfg_passphrase cfg\<rparr>)))"

text \<open>Lines 399-418: the body of the inner \<open>try\<close>.\<close>

definition unsaved_proxy_body :: "env \<Rightarrow> int \<Rightarrow> raw_proxy \<Rightarrow> resolved_proxy action" where
  "unsaved_proxy_body env proxy_id rawProxyInfo =
     (case required (rp_name rawProxyInfo) (ProxyNullField proxy_id ''name'') of
        Inl e \<Rightarrow> ([], Inl e)
      | Inr proxyName \<Rightarrow>
     (case required (rp_type rawProxyInfo) (ProxyNullField proxy_id ''type'') of
        Inl e \<Rightarrow> ([], Inl e)
      | Inr proxyType \<Rightarrow>
     (case required (rp_host rawProxyInfo) (ProxyNullField proxy_id ''host'') of
        Inl e \<Rightarrow> ([], Inl e)
      | Inr proxyHost \<Rightarrow>
     (case required (rp_port rawProxyInfo) (ProxyNullField proxy_id ''port'') of
        Inl e \<Rightarrow> ([], Inl e)
      | Inr proxyPort \<Rightarrow>
         (if proxyType \<noteq> ''SOCKS5'' \<and> proxyType \<noteq> ''HTTP'' then
            ([], Inl (ProxyInvalidType proxy_id proxyType))
          else
            (case (if truthy_string (rp_encrypted_password rawProxyInfo)
                   then (case decrypt_call env ProxyEncryptedPassword
                                (the (rp_encrypted_password rawProxyInfo)) of
                           (t, Inl e) \<Rightarrow> (t, Inl e)
                         | (t, Inr plain) \<Rightarrow> (t, Inr (Some plain)))
                   else ([], Inr None)) of
               (t, Inl e) \<Rightarrow> (t, Inl e)
             | (t, Inr pw) \<Rightarrow>
                 (t, Inr \<lparr>px_id = rp_id rawProxyInfo, px_name = proxyName, px_type = proxyType,
                          px_host = proxyHost, px_port = proxyPort,
                          px_username = or_undefined (rp_username rawProxyInfo),
                          px_password = pw\<rparr>)))))))"

text \<open>Lines 391-424.\<close>

definition unsaved_proxy :: "env \<Rightarrow> unsaved_config \<Rightarrow> details \<Rightarrow> details action" where
  "unsaved_proxy env cfg d =
     (if truthy_number (cfg_proxy_id cfg) then
        (case findProxyById env (the (cfg_proxy_id cfg)) of
           None \<Rightarrow>
             ([Console Log 393, FindProxyById (the (cfg_proxy_id cfg))],
              Inl (ProxyNotFound (the (cfg_proxy_id cfg))))
         | Some rawProxyInfo \<Rightarrow>
             (case unsaved_proxy_body env (the (cfg_proxy_id cfg)) rawProxyInfo of
                (t, Inl e) \<Rightarrow>
                  ([Console Log 393, FindProxyById (the (cfg_proxy_id cfg))] @ t @
                     [Console Err 421],
                   Inl (ProxyCredentialsFailed e))
              | (t, Inr p) \<Rightarrow>
                  ([Console Log 393, FindProxyById (the (cfg_proxy_id cfg))] @ t @
                     [Console Log 419],
                   Inr (d\<lparr>proxy := Some p\<rparr>))))
      else ([], Inr d))"

text \<open>Lines 356-424: what \<open>testUnsavedConnection\<close> does before it connects.\<close>

definition resolve_unsaved :: "env \<Rightarrow> unsaved_config \<Rightarrow> details action" where
  "resolve_unsaved env cfg =
     (case unsaved_credentials env cfg (temp_details cfg) of
        (t1, Inl e) \<Rightarrow> (t1, Inl e)
      | (t1, Inr d1) \<Rightarrow>
          (case unsaved_proxy env cfg d1 of
             (t2, Inl e) \<Rightarrow> (t1 @ t2, Inl e)
           | (t2, Inr d2) \<Rightarrow> (t1 @ t2, Inr d2)))"

text \<open>Lines 341-443.\<close>

definition testUnsavedConnection ::
  "env \<Rightarrow> library \<Rightarrow> unsaved_config \<Rightarrow> int \<Rightarrow> int \<Rightarrow> event list \<Rightarrow> int action option" where
  "testUnsavedConnection env lb connectionConfig startTime endTime events =
     (case resolve_unsaved env connectionConfig of
        (t, Inl e) \<Rightarrow> Some ([Console Log 352] @ t @ [Console Err 434], Inl e)
      | (t, Inr tempConnDetails) \<Rightarrow>
          (let s = await_settled (establishSshConnection lb tempConnDetails TEST_TIMEOUT)
                     events
           in case promise s of
                Pending \<Rightarrow> None
              | Rejected e \<Rightarrow>
                  Some ([Console Log 352] @ t @ trace s @ [Console Err 434], Inl e)
              | Resolved \<Rightarrow>
                  (case end_throws lb of
                     None \<Rightarrow>
                       Some ([Console Log 352] @ t @ trace s @
                               [Console Log 431, ClientEnd, Console Log 440],
                             Inr (endTime - startTime))
                   | Some endError \<Rightarrow>
                       Some ([Console Log 352] @ t @ trace s @ [Console Log 431, ClientEnd],
                             Inl endError))))"

section \<open>Kinds of effects and errors\<close>

text \<open>Console output, lookups and \<open>decrypt\<close> calls: the effects that change nothing.\<close>

fun read_only :: "effect \<Rightarrow> bool" where
  "read_only (Console l n) = True"
| "read_only (FindFullConnectionById i) = True"
| "read_only (FindProxyById i) = True"
| "read_only (GetDecryptedSshKeyById i) = True"
| "read_only (Decrypt col c) = True"
| "read_only e = False"



text \<open>The calls that settle the promise of an attempt, among the effects.\<close>

fun settle_call :: "effect \<Rightarrow> bool" where
  "settle_call Resolve = True"
| "settle_call (Reject e) = True"
| "settle_call e = False"

section \<open>Example data\<close>

definition example_row :: raw_connection where
  "example_row =
     \<lparr>raw_id = 1, raw_name = Some ''build box'', raw_host = Some ''10.0.0.5'',
      raw_port = Some 22, raw_username = Some ''deploy'', raw_auth_method = Some ''key'',
      encrypted_password = None, encrypted_private_key = None, encrypted_passphrase = None,
      ssh_key_id = None, proxy_db_id = None, proxy_name = None, proxy_type = None,
      proxy_host = None, proxy_port = None, proxy_username = None,
      proxy_encrypted_password = None\<rparr>"

definition example_row_stored :: raw_connection where
  "example_row_stored =
     example_row\<lparr>raw_id := 2, ssh_key_id := Some 7,
       encrypted_private_key := Some ''yek-enilni''\<rparr>"

definition example_row_dangling :: raw_connection where
  "example_row_dangling =
     example_row\<lparr>raw_id := 3, ssh_key_id := Some 9,
       encrypted_private_key := Some ''yek-enilni''\<rparr>"

definition example_row_old_proxy :: raw_connection where
  "example_row_old_proxy =
     example_row\<lparr>raw_id := 4, proxy_db_id := Some 5, proxy_name := Some ''old'',
       proxy_type := Some ''SOCKS4'', proxy_host := Some ''10.0.0.1'',
       proxy_port := Some 1080\<rparr>"

definition example_row_password :: raw_connection where
  "example_row_password =
     example_row\<lparr>raw_id := 5, raw_auth_method := Some ''password'',
       encrypted_password := Some ''terces''\<rparr>"

text \<open>A proxy of an unsupported type on a connection whose stored key is missing.\<close>

definition example_row_old_proxy_dangling :: raw_connection where
  "example_row_old_proxy_dangling = example_row_old_proxy\<lparr>raw_id := 6, ssh_key_id := Some 9\<rparr>"

definition example_rows :: "int \<Rightarrow> raw_connection option" where
  "example_rows i =
     (if i = 1 then Some example_row
      else if i = 2 then Some example_row_stored
      else if i = 3 then Some example_row_dangling
      else if i = 4 then Some example_row_old_proxy
      else if i = 5 then Some example_row_password
      else if i = 6 then Some example_row_old_proxy_dangling
      else None)"

definition example_old_proxy :: raw_proxy where
  "example_old_proxy =
     \<lparr>rp_id = 5, rp_name = Some ''old'', rp_type = Some ''SOCKS4'',
      rp_host = Some ''10.0.0.1'', rp_port = Some 1080, rp_username = None,
      rp_encrypted_password = None\<rparr>"

definition example_proxies :: "int \<Rightarrow> raw_proxy option" where
  "example_proxies i = (if i = 5 then Some example_old_proxy else None)"

definition example_key :: stored_key where
  "example_key = \<lparr>sk_privateKey = ''stored-key'', sk_passphrase = Some ''phrase''\<rparr>"

definition example_keys :: "int \<Rightarrow> stored_key option" where
  "example_keys i = (if i = 7 then Some example_key else None)"

text \<open>A toy cipher: the plaintext is the ciphertext reversed; the empty text is malformed.\<close>

definition example_decrypt :: "string \<Rightarrow> string + string" where
  "example_decrypt c = (if c = [] then Inl ''malformed'' else Inr (rev c))"

definition example_env :: env where
  "example_env =
     \<lparr>findFullConnectionById = example_rows, findProxyById = example_proxies,
      getDecryptedSshKeyById = example_keys, decrypt = example_decrypt\<rparr>"

text \<open>The same lookups with an empty proxy table.\<close>

definition example_env_no_proxies :: env where
  "example_env_no_proxies = example_env\<lparr>findProxyById := (\<lambda>i. None)\<rparr>"

text \<open>Libraries whose calls all return, and an ssh2 that refuses the configuration.\<close>

definition example_library :: library where
  "example_library = \<lparr>end_throws = None, connect_throws = None, request_throws = None\<rparr>"

definition example_library_refusing :: library where
  "example_library_refusing =
     example_library\<lparr>connect_throws := Some (Thrown ''Cannot parse privateKey'')\<rparr>"

definition example_details :: details where
  "example_details =
     \<lparr>conn_id = 5, conn_name = ''build box'', conn_host = ''10.0.0.5'', conn_port = 22,
      conn_username = ''deploy'', auth_method = ''password'', password = Some ''secret'',
      privateKey = None, passphrase = None, proxy = None\<rparr>"

definition example_http_proxy :: resolved_proxy where
  "example_http_proxy =
     \<lparr>px_id = 6, px_name = ''squid'', px_type = ''HTTP'', px_host = ''10.0.0.2'',
      px_port = 3128, px_username = None, px_password = None\<rparr>"

definition example_unsaved :: unsaved_config where
  "example_unsaved =
     \<lparr>cfg_host = ''10.0.0.9'', cfg_port = 22, cfg_username = ''root'',
      cfg_auth_method = ''password'', cfg_password = Some ''secret'', cfg_private_key = None,
      cfg_passphrase = None, cfg_ssh_key_id = None, cfg_proxy_id = None\<rparr>"

section \<open>States of an attempt\<close>

text \<open>
  The listener lists that an attempt goes through: all three listeners, as the executor
  attaches them; the \<open>ready\<close> listener alone, which \<open>errorHandler\<close> and
  \<open>closeHandler\<close> leave behind, because they ask to remove \<open>readyHandler\<close> while the
  function attached to \<open>ready\<close> is \<open>enhancedReadyHandler\<close>; and none.
\<close>

definition attached :: "(string \<times> handler \<times> bool) list" where
  "attached = [(''ready'', EnhancedReadyHandler, True), (''error'', ErrorHandler, False),
               (''close'', CloseHandler, False)]"

definition ready_only :: "(string \<times> handler \<times> bool) list" where
  "ready_only = [(''ready'', EnhancedReadyHandler, True)]"

definition known_listeners :: "attempt \<Rightarrow> bool" where
  "known_listeners s = (listeners s = attached \<or> listeners s = ready_only \<or> listeners s = [])"

definition ready_attached :: "attempt \<Rightarrow> bool" where
  "ready_attached s = (listeners s = attached \<or> listeners s = ready_only)"

text \<open>What \<open>emit\<close> runs for \<open>ready\<close>: the \<open>once\<close> listener is removed, then called.\<close>

definition on_ready :: "int \<Rightarrow> attempt \<Rightarrow> attempt" where
  "on_ready now s = enhancedReadyHandler now (removeListener ''ready'' EnhancedReadyHandler s)"

text \<open>What the promise executor throws for these details, if it throws.\<close>

definition executor_throws :: "library \<Rightarrow> details \<Rightarrow> error option" where
  "executor_throws lb d =
     (case proxy d of
        None \<Rightarrow> connect_throws lb
      | Some p \<Rightarrow>
          if px_type p = ''SOCKS5'' then None
          else if px_type p = ''HTTP'' then request_throws lb
          else None)"

text \<open>Details whose proxy, if any, has a type the executor knows.\<close>

definition supported :: "details \<Rightarrow> bool" where
  "supported d =
     (case proxy d of None \<Rightarrow> True | Some p \<Rightarrow> px_type p = ''SOCKS5'' \<or> px_type p = ''HTTP'')"


text \<open>
  When the promise is resolved, or \<open>readyHandler\<close> waits for the repository, then a
  \<open>ready\<close> event among \<open>E\<close> has made the attempt call \<open>updateLastConnected\<close> with
  the identifier of its details.
\<close>

definition update_recorded :: "event set \<Rightarrow> attempt \<Rightarrow> bool" where
  "update_recorded E s =
     (promise s = Resolved \<or> awaitingUpdate s \<noteq> None \<longrightarrow>
        (\<exists>now. SshReady now \<in> E \<and>
           UpdateLastConnected (conn_id (connDetails s)) (now div 1000) \<in> set (trace s)))"

section \<open>Resolution: helper facts\<close>

lemma resolve_credentials_read_only:
  "resolve_credentials env cid raw d = (t, r) \<Longrightarrow> list_all read_only t"
  by (auto simp: resolve_credentials_def decrypt_call_def
      split: if_splits option.splits sum.splits prod.splits)

lemma resolve_proxy_read_only:
  "resolve_proxy env cid raw d = (t, r) \<Longrightarrow> list_all read_only t"
  by (auto simp: resolve_proxy_def decrypt_call_def required_def
      split: if_splits option.splits sum.splits prod.splits)

lemma resolve_body_read_only:
  "resolve_body env cid raw = (t, r) \<Longrightarrow> list_all read_only t"
  by (auto simp: resolve_body_def split: sum.splits prod.splits
      dest: resolve_credentials_read_only resolve_proxy_read_only)

lemma getConnectionDetails_read_only:
  "list_all read_only (fst (getConnectionDetails env cid))"
  by (auto simp: getConnectionDetails_def split: option.splits sum.splits prod.splits
      dest: resolve_body_read_only)

lemma resolve_proxy_only_proxy:
  "resolve_proxy env cid raw d = (t, Inr d') \<Longrightarrow>
     password d' = password d \<and> privateKey d' = privateKey d \<and>
     passphrase d' = passphrase d \<and> auth_method d' = auth_method d \<and>
     conn_id d' = conn_id d"
  by (auto simp: resolve_proxy_def split: if_splits option.splits sum.splits prod.splits)

lemma initial_details_fields:
  "initial_details cid raw = Inr d \<Longrightarrow>
     password d = None \<and> privateKey d = None \<and> passphrase d = None \<and> proxy d = None \<and>
     Some (auth_method d) = raw_auth_method raw \<and> conn_id d = raw_id raw"
  by (auto simp: initial_details_def required_def split: option.splits)

lemma resolve_credentials_stored_key:
  assumes "auth_method d = ''key''" "ssh_key_id raw = Some k" "k \<noteq> 0"
  shows "resolve_credentials env cid raw d =
           (case getDecryptedSshKeyById env k of
              None \<Rightarrow> ([Console Log 75, GetDecryptedSshKeyById k, Console Err 78],
                        Inl (SshKeyNotFound k))
            | Some key \<Rightarrow>
                ([Console Log 75, GetDecryptedSshKeyById k, Console Log 83],
                 Inr (d\<lparr>privateKey := Some (sk_privateKey key),
                        passphrase := sk_passphrase key\<rparr>)))"
  using assms by (simp add: resolve_credentials_def truthy_number_def split: option.splits)

lemma resolve_proxy_no_key_decrypt:
  "resolve_proxy env cid raw d = (t, r) \<Longrightarrow> Decrypt EncryptedPrivateKey c \<notin> set t"
  by (auto simp: resolve_proxy_def decrypt_call_def required_def
      split: if_splits option.splits sum.splits prod.splits)

section \<open>Resolution: the stored key comes first\<close>

text \<open>
  C2.  Take a stored connection whose mandatory columns are present, whose authentication
  mode is \<open>key\<close>, and which has both a reference to a stored key (\<open>ssh_key_id\<close>, a row
  identifier, so not 0) and an inline encrypted private key.  Then
  \<open>getConnectionDetails\<close> never calls \<open>decrypt\<close> on the inline key.  When the key
  service has no key under the reference, the call throws the key-not-found error (inside
  the error of the \<open>catch\<close> block).  When it has one, every value the call returns
  carries the private key and the passphrase of the stored key, and the call can only throw
  what the proxy block throws.
\<close>

theorem stored_key_takes_precedence:
  assumes row: "findFullConnectionById env cid = Some raw"
    and mandatory: "initial_details cid raw = Inr d0"
    and mode: "raw_auth_method raw = Some ''key''"
    and reference: "ssh_key_id raw = Some k" "k \<noteq> 0"
    and inline: "encrypted_private_key raw = Some c"
  shows "(\<forall>x. Decrypt EncryptedPrivateKey x \<notin> set (fst (getConnectionDetails env cid))) \<and>
         (case getDecryptedSshKeyById env k of
            None \<Rightarrow>
              snd (getConnectionDetails env cid) = Inl (CredentialsFailed (SshKeyNotFound k))
          | Some key \<Rightarrow>
              (case snd (getConnectionDetails env cid) of
                 Inr d \<Rightarrow>
                   privateKey d = Some (sk_privateKey key) \<and> passphrase d = sk_passphrase key
               | Inl e \<Rightarrow>
                   (\<exists>t e'. e = CredentialsFailed e' \<and>
                      resolve_proxy env cid raw
                        (d0\<lparr>privateKey := Some (sk_privateKey key),
                            passphrase := sk_passphrase key\<rparr>) = (t, Inl e'))))"
proof -
  have am: "auth_method d0 = ''key''"
    using initial_details_fields [OF mandatory] mode by simp
  note cred = resolve_credentials_stored_key [OF am reference, of env cid]
  show ?thesis
  proof (cases "getDecryptedSshKeyById env k")
    case None
    then show ?thesis
      using row mandatory cred
      by (simp add: getConnectionDetails_def resolve_body_def)
  next
    case (Some key)
    obtain t r where px: "resolve_proxy env cid raw
        (d0\<lparr>privateKey := Some (sk_privateKey key), passphrase := sk_passphrase key\<rparr>) = (t, r)"
      by (cases "resolve_proxy env cid raw
        (d0\<lparr>privateKey := Some (sk_privateKey key), passphrase := sk_passphrase key\<rparr>)")
    have nodec: "\<forall>x. Decrypt EncryptedPrivateKey x \<notin> set t"
      using resolve_proxy_no_key_decrypt [OF px] by blast
    show ?thesis
    proof (cases r)
      case (Inl e)
      then show ?thesis
        using row mandatory cred Some px nodec
        by (simp add: getConnectionDetails_def resolve_body_def)
    next
      case (Inr d)
      then show ?thesis
        using row mandatory cred Some px nodec resolve_proxy_only_proxy [of env cid raw _ t d]
        by (simp add: getConnectionDetails_def resolve_body_def)
    qed
  qed
qed

lemma example_row_initial:
  "initial_details cid (example_row\<lparr>raw_id := i, ssh_key_id := k, encrypted_private_key := c\<rparr>) =
     Inr \<lparr>conn_id = i, conn_name = ''build box'', conn_host = ''10.0.0.5'', conn_port = 22,
          conn_username = ''deploy'', auth_method = ''key'', password = None,
          privateKey = None, passphrase = None, proxy = None\<rparr>"
  by (simp add: initial_details_def required_def example_row_def)

theorem stored_key_takes_precedence_witness:
  "(\<forall>x. Decrypt EncryptedPrivateKey x \<notin> set (fst (getConnectionDetails example_env 2))) \<and>
   (case snd (getConnectionDetails example_env 2) of
      Inr d \<Rightarrow> privateKey d = Some ''stored-key'' \<and> passphrase d = Some ''phrase''
    | Inl e \<Rightarrow> False) \<and>
   snd (getConnectionDetails example_env 3) = Inl (CredentialsFailed (SshKeyNotFound 9))"
proof -
  have row2: "findFullConnectionById example_env 2 = Some example_row_stored"
    and row3: "findFullConnectionById example_env 3 = Some example_row_dangling"
    by (simp_all add: example_env_def example_rows_def)
  have init2: "initial_details 2 example_row_stored = Inr (example_details\<lparr>conn_id := 2,
      auth_method := ''key'', password := None\<rparr>)"
    and init3: "initial_details 3 example_row_dangling = Inr (example_details\<lparr>conn_id := 3,
      auth_method := ''key'', password := None\<rparr>)"
    by (simp_all add: example_row_stored_def example_row_dangling_def example_row_initial
        example_details_def)
  have mode2: "raw_auth_method example_row_stored = Some ''key''"
    and ref2: "ssh_key_id example_row_stored = Some 7"
    and inl2: "encrypted_private_key example_row_stored = Some ''yek-enilni''"
    and mode3: "raw_auth_method example_row_dangling = Some ''key''"
    and ref3: "ssh_key_id example_row_dangling = Some 9"
    and inl3: "encrypted_private_key example_row_dangling = Some ''yek-enilni''"
    by (simp_all add: example_row_stored_def example_row_dangling_def example_row_def)
  have key7: "getDecryptedSshKeyById example_env 7 = Some example_key"
    and key9: "getDecryptedSshKeyById example_env 9 = None"
    by (simp_all add: example_env_def example_keys_def)
  have noproxy: "resolve_proxy example_env 2 example_row_stored d = ([], Inr d)" for d
    by (simp add: resolve_proxy_def truthy_number_def example_row_stored_def example_row_def)
  have stored:
    "(\<forall>x. Decrypt EncryptedPrivateKey x \<notin> set (fst (getConnectionDetails example_env 2))) \<and>
     (case snd (getConnectionDetails example_env 2) of
        Inr d \<Rightarrow> privateKey d = Some ''stored-key'' \<and> passphrase d = Some ''phrase''
      | Inl e \<Rightarrow> False)"
    using stored_key_takes_precedence [OF row2 init2 mode2 ref2 _ inl2]
    by (simp add: key7 noproxy example_key_def split: sum.splits)
  have dangling:
    "snd (getConnectionDetails example_env 3) = Inl (CredentialsFailed (SshKeyNotFound 9))"
    using stored_key_takes_precedence [OF row3 init3 mode3 ref3 _ inl3]
    by (simp add: key9)
  from stored dangling show ?thesis by simp
qed

section \<open>Resolution: key mode without any key\<close>

lemma resolve_credentials_no_key:
  assumes "auth_method d = ''key''" "\<not> truthy_number (ssh_key_id raw)"
    "\<not> truthy_string (encrypted_private_key raw)"
  shows "resolve_credentials env cid raw d = ([Console Warn 91], Inr d)"
  using assms by (simp add: resolve_credentials_def)

text \<open>
  C7, as stated, fails: a connection in \<open>key\<close> mode with no key at all may still carry
  a proxy that the proxy block refuses, and then \<open>getConnectionDetails\<close> throws after
  the warning.  Here the proxy has the type \<open>SOCKS4\<close>.
\<close>

theorem key_mode_without_key_counterexample:
  "findFullConnectionById example_env 4 = Some example_row_old_proxy \<and>
   raw_auth_method example_row_old_proxy = Some ''key'' \<and>
   ssh_key_id example_row_old_proxy = None \<and>
   encrypted_private_key example_row_old_proxy = None \<and>
   getConnectionDetails example_env 4 =
     ([Console Log 45, FindFullConnectionById 4, Console Warn 91, Console Err 121],
      Inl (CredentialsFailed (ConnProxyInvalidType 4 ''SOCKS4'')))"
  by (simp add: getConnectionDetails_def resolve_body_def initial_details_def required_def
      resolve_credentials_def resolve_proxy_def truthy_number_def truthy_string_def
      example_env_def example_rows_def example_row_old_proxy_def example_row_def)

text \<open>
  C7, amended.  Take a stored connection whose mandatory columns are present, whose
  authentication mode is \<open>key\<close>, and which has neither a reference to a stored key nor an
  inline encrypted private key.  The missing key throws nothing: whenever the proxy block
  of the connection does not throw, \<open>getConnectionDetails\<close> returns; it logs the warning
  of line 91, and the details it returns have no private key and no passphrase.
\<close>

theorem key_mode_without_key_resolves:
  assumes row: "findFullConnectionById env cid = Some raw"
    and mandatory: "initial_details cid raw = Inr d0"
    and mode: "raw_auth_method raw = Some ''key''"
    and no_reference: "\<not> truthy_number (ssh_key_id raw)"
    and no_inline: "\<not> truthy_string (encrypted_private_key raw)"
    and proxy_ok: "resolve_proxy env cid raw d0 = (t, Inr d)"
  shows "getConnectionDetails env cid =
           ([Console Log 45, FindFullConnectionById cid, Console Warn 91] @ t @ [Console Log 118],
            Inr d) \<and>
         privateKey d = None \<and> passphrase d = None"
proof -
  have am: "auth_method d0 = ''key''"
    using initial_details_fields [OF mandatory] mode by simp
  show ?thesis
    using row mandatory proxy_ok resolve_credentials_no_key [OF am no_reference no_inline, of env cid]
      resolve_proxy_only_proxy [OF proxy_ok] initial_details_fields [OF mandatory]
    by (simp add: getConnectionDetails_def resolve_body_def)
qed

theorem key_mode_without_key_resolves_witness:
  "getConnectionDetails example_env 1 =
     ([Console Log 45, FindFullConnectionById 1, Console Warn 91, Console Log 118],
      Inr (example_details\<lparr>conn_id := 1, auth_method := ''key'', password := None\<rparr>)) \<and>
   privateKey (example_details\<lparr>conn_id := 1, auth_method := ''key'', password := None\<rparr>) = None \<and>
   passphrase (example_details\<lparr>conn_id := 1, auth_method := ''key'', password := None\<rparr>) = None"
proof -
  have row: "findFullConnectionById example_env 1 = Some example_row"
    by (simp add: example_env_def example_rows_def)
  have init: "initial_details 1 example_row =
      Inr (example_details\<lparr>conn_id := 1, auth_method := ''key'', password := None\<rparr>)"
    by (simp add: initial_details_def required_def example_row_def example_details_def)
  have mode: "raw_auth_method example_row = Some ''key''"
    and no_reference: "\<not> truthy_number (ssh_key_id example_row)"
    and no_inline: "\<not> truthy_string (encrypted_private_key example_row)"
    by (simp_all add: example_row_def truthy_number_def truthy_string_def)
  have proxy_ok: "resolve_proxy example_env 1 example_row d = ([], Inr d)" for d
    by (simp add: resolve_proxy_def truthy_number_def example_row_def)
  from key_mode_without_key_resolves [OF row init mode no_reference no_inline proxy_ok]
  show ?thesis by simp
qed

section \<open>Resolution: one kind of secret per mode\<close>

lemma resolve_credentials_exclusive:
  assumes "resolve_credentials env cid raw d = (t, Inr d')"
    and "password d = None" "privateKey d = None" "passphrase d = None"
  shows "auth_method d' = auth_method d \<and>
         (auth_method d' = ''password'' \<longrightarrow> privateKey d' = None \<and> passphrase d' = None) \<and>
         (auth_method d' = ''key'' \<longrightarrow> password d' = None)"
  using assms
  by (auto simp: resolve_credentials_def decrypt_call_def
      split: if_splits option.splits sum.splits prod.splits)

lemma getConnectionDetails_exclusive:
  assumes "getConnectionDetails env cid = (t, Inr d)"
  shows "(auth_method d = ''password'' \<longrightarrow> privateKey d = None \<and> passphrase d = None) \<and>
         (auth_method d = ''key'' \<longrightarrow> password d = None)"
proof -
  from assms obtain raw tb where row: "findFullConnectionById env cid = Some raw"
    and body: "resolve_body env cid raw = (tb, Inr d)"
    by (auto simp: getConnectionDetails_def split: option.splits sum.splits prod.splits)
  from body obtain d0 t1 d1 t2 where init: "initial_details cid raw = Inr d0"
    and cred: "resolve_credentials env cid raw d0 = (t1, Inr d1)"
    and px: "resolve_proxy env cid raw d1 = (t2, Inr d)"
    by (auto simp: resolve_body_def split: sum.splits prod.splits)
  show ?thesis
    using resolve_credentials_exclusive [OF cred] initial_details_fields [OF init]
      resolve_proxy_only_proxy [OF px]
    by simp
qed

lemma unsaved_proxy_only_proxy:
  "unsaved_proxy env cfg d = (t, Inr d') \<Longrightarrow>
     password d' = password d \<and> privateKey d' = privateKey d \<and>
     passphrase d' = passphrase d \<and> auth_method d' = auth_method d \<and>
     conn_id d' = conn_id d"
  by (auto simp: unsaved_proxy_def split: if_splits option.splits sum.splits prod.splits)

lemma unsaved_credentials_exclusive:
  assumes "unsaved_credentials env cfg (temp_details cfg) = (t, Inr d')"
  shows "conn_id d' = - 1 \<and>
         (auth_method d' = ''password'' \<longrightarrow> privateKey d' = None \<and> passphrase d' = None) \<and>
         (auth_method d' = ''key'' \<longrightarrow> password d' = None)"
  using assms
  by (auto simp: unsaved_credentials_def temp_details_def
      split: if_splits option.splits sum.splits prod.splits)

lemma resolve_unsaved_exclusive:
  assumes "resolve_unsaved env cfg = (t, Inr d)"
  shows "conn_id d = - 1 \<and>
         (auth_method d = ''password'' \<longrightarrow> privateKey d = None \<and> passphrase d = None) \<and>
         (auth_method d = ''key'' \<longrightarrow> password d = None)"
proof -
  from assms obtain t1 d1 t2 where cred: "unsaved_credentials env cfg (temp_details cfg) = (t1, Inr d1)"
    and px: "unsaved_proxy env cfg d1 = (t2, Inr d)"
    by (auto simp: resolve_unsaved_def split: sum.splits prod.splits)
  show ?thesis
    using unsaved_credentials_exclusive [OF cred] unsaved_proxy_only_proxy [OF px] by simp
qed

text \<open>
  C8.  The details returned by \<open>getConnectionDetails\<close>, and those built by
  \<open>testUnsavedConnection\<close> before it connects, hold the secrets of one mode only: with
  \<open>password\<close> there is no private key and no passphrase, with \<open>key\<close> there is no
  password.
\<close>

theorem secrets_exclusive_per_mode:
  "(getConnectionDetails env cid = (t, Inr d) \<longrightarrow>
      (auth_method d = ''password'' \<longrightarrow> privateKey d = None \<and> passphrase d = None) \<and>
      (auth_method d = ''key'' \<longrightarrow> password d = None)) \<and>
   (resolve_unsaved env' cfg = (t', Inr d') \<longrightarrow>
      (auth_method d' = ''password'' \<longrightarrow> privateKey d' = None \<and> passphrase d' = None) \<and>
      (auth_method d' = ''key'' \<longrightarrow> password d' = None))"
  using getConnectionDetails_exclusive [of env cid t d] resolve_unsaved_exclusive [of env' cfg t' d']
  by blast


theorem secrets_exclusive_per_mode_witness:
  "getConnectionDetails example_env 5 =
     ([Console Log 45, FindFullConnectionById 5, Decrypt EncryptedPassword ''terces'',
       Console Log 118], Inr example_details) \<and>
   auth_method example_details = ''password'' \<and> auth_method example_details \<noteq> ''key'' \<and>
   privateKey example_details = None \<and> passphrase example_details = None \<and>
   resolve_unsaved example_env (example_unsaved\<lparr>cfg_auth_method := ''key'',
       cfg_private_key := Some ''inline-key''\<rparr>) =
     ([], Inr (temp_details example_unsaved\<lparr>auth_method := ''key'',
                 privateKey := Some ''inline-key''\<rparr>)) \<and>
   password (temp_details example_unsaved\<lparr>auth_method := ''key'',
                 privateKey := Some ''inline-key''\<rparr>) = None"
proof -
  have saved: "getConnectionDetails example_env 5 =
     ([Console Log 45, FindFullConnectionById 5, Decrypt EncryptedPassword ''terces'',
       Console Log 118], Inr example_details)"
    by (simp add: getConnectionDetails_def resolve_body_def initial_details_def required_def
        resolve_credentials_def decrypt_call_def resolve_proxy_def truthy_number_def
        truthy_string_def example_env_def example_rows_def example_row_password_def
        example_row_def example_decrypt_def example_details_def)
  have unsaved: "resolve_unsaved example_env (example_unsaved\<lparr>cfg_auth_method := ''key'',
       cfg_private_key := Some ''inline-key''\<rparr>) =
     ([], Inr (temp_details example_unsaved\<lparr>auth_method := ''key'',
                 privateKey := Some ''inline-key''\<rparr>))"
    by (simp add: resolve_unsaved_def unsaved_credentials_def unsaved_proxy_def
        temp_details_def truthy_number_def example_unsaved_def)
  have mode: "auth_method example_details = ''password''" "auth_method example_details \<noteq> ''key''"
    "auth_method (temp_details example_unsaved\<lparr>auth_method := ''key'',
                 privateKey := Some ''inline-key''\<rparr>) = ''key''"
    by (simp_all add: example_details_def)
  from secrets_exclusive_per_mode [of example_env 5 _ example_details example_env _ "[]"
      "temp_details example_unsaved\<lparr>auth_method := ''key'', privateKey := Some ''inline-key''\<rparr>"]
    saved unsaved mode
  show ?thesis by simp
qed

section \<open>Resolution reads and does not write\<close>

lemma decrypt_call_cong:
  "decrypt env1 = decrypt env2 \<Longrightarrow> decrypt_call env1 = decrypt_call env2"
  by (intro ext) (simp add: decrypt_call_def)

text \<open>
  C9.  \<open>getConnectionDetails\<close> is a function of the row found under the identifier, of
  the key service and of the cipher: whenever these are the same, the effects and the result
  are the same, whatever else differs.  All its effects are console output, lookups and
  \<open>decrypt\<close> calls; it writes nothing.
\<close>

theorem resolution_is_deterministic:
  assumes rows: "findFullConnectionById env1 cid = findFullConnectionById env2 cid"
    and keys: "getDecryptedSshKeyById env1 = getDecryptedSshKeyById env2"
    and cipher: "decrypt env1 = decrypt env2"
  shows "getConnectionDetails env1 cid = getConnectionDetails env2 cid \<and>
         list_all read_only (fst (getConnectionDetails env1 cid))"
proof -
  note dc = decrypt_call_cong [OF cipher]
  have cred: "resolve_credentials env1 cid raw d = resolve_credentials env2 cid raw d" for raw d
    unfolding resolve_credentials_def keys dc by (rule refl)
  have px: "resolve_proxy env1 cid raw d = resolve_proxy env2 cid raw d" for raw d
    unfolding resolve_proxy_def dc by (rule refl)
  have body: "resolve_body env1 cid raw = resolve_body env2 cid raw" for raw
    unfolding resolve_body_def cred px by (rule refl)
  have same: "getConnectionDetails env1 cid = getConnectionDetails env2 cid"
    unfolding getConnectionDetails_def rows body by (rule refl)
  from same getConnectionDetails_read_only [of env1 cid] show ?thesis by simp
qed

theorem resolution_is_deterministic_witness:
  "getConnectionDetails example_env 2 = getConnectionDetails example_env_no_proxies 2 \<and>
   list_all read_only (fst (getConnectionDetails example_env 2))"
proof -
  have "findFullConnectionById example_env 2 = findFullConnectionById example_env_no_proxies 2"
    and "getDecryptedSshKeyById example_env = getDecryptedSshKeyById example_env_no_proxies"
    and "decrypt example_env = decrypt example_env_no_proxies"
    by (simp_all add: example_env_no_proxies_def)
  then show ?thesis by (rule resolution_is_deterministic)
qed

section \<open>Resolution: a proxy of an unsupported type\<close>

















section \<open>Attempts: what each event does\<close>

lemma errorHandler_fields:
  "promise (errorHandler e s) = (if promise s = Pending then Rejected e else promise s)"
  "trace (errorHandler e s) =
     trace s @ [Console Err 174, ClientEnd] @
       (case end_throws (lib s) of None \<Rightarrow> [] | Some x \<Rightarrow> [Console Err 180]) @ [Reject e]"
  "awaitingUpdate (errorHandler e s) = awaitingUpdate s"
  "connDetails (errorHandler e s) = connDetails s"
  "lib (errorHandler e s) = lib s"
  "socksPending (errorHandler e s) = socksPending s"
  "connectConfig (errorHandler e s) = connectConfig s"
  by (simp_all add: errorHandler_def Let_def removeListener_def did_def reject_def
      split: option.splits)

lemma errorHandler_listeners:
  "listeners s = attached \<Longrightarrow> listeners (errorHandler e s) = ready_only"
  "listeners s = ready_only \<Longrightarrow> listeners (errorHandler e s) = ready_only"
  "listeners s = [] \<Longrightarrow> listeners (errorHandler e s) = []"
  by (simp_all add: errorHandler_def Let_def removeListener_def did_def reject_def
      attached_def ready_only_def split: option.splits)

lemma handleProxyError_fields:
  "promise (handleProxyError e s) = (if promise s = Pending then Rejected e else promise s)"
  "trace (handleProxyError e s) =
     trace s @ [Console Err 212, Console Err 174, ClientEnd] @
       (case end_throws (lib s) of None \<Rightarrow> [] | Some x \<Rightarrow> [Console Err 180]) @ [Reject e]"
  "awaitingUpdate (handleProxyError e s) = awaitingUpdate s"
  "connDetails (handleProxyError e s) = connDetails s"
  "lib (handleProxyError e s) = lib s"
  "socksPending (handleProxyError e s) = socksPending s"
  "connectConfig (handleProxyError e s) = connectConfig s"
  by (simp_all add: handleProxyError_def errorHandler_fields did_def)

lemma handleProxyError_listeners:
  "listeners s = attached \<Longrightarrow> listeners (handleProxyError e s) = ready_only"
  "listeners s = ready_only \<Longrightarrow> listeners (handleProxyError e s) = ready_only"
  "listeners s = [] \<Longrightarrow> listeners (handleProxyError e s) = []"
  by (simp_all add: handleProxyError_def errorHandler_listeners did_def)

lemma step_error:
  "listeners s = attached \<Longrightarrow> step (SshError e) s = errorHandler e s"
  "listeners s = ready_only \<Longrightarrow> step (SshError e) s = did [UnhandledError e] s"
  "listeners s = [] \<Longrightarrow> step (SshError e) s = did [UnhandledError e] s"
  by (simp_all add: emit_def attached_def ready_only_def)

lemma closeHandler_fields:
  "promise (closeHandler s) = promise s"
  "trace (closeHandler s) = trace s"
  "awaitingUpdate (closeHandler s) = awaitingUpdate s"
  "connDetails (closeHandler s) = connDetails s"
  "lib (closeHandler s) = lib s"
  "socksPending (closeHandler s) = socksPending s"
  "connectConfig (closeHandler s) = connectConfig s"
  by (simp_all add: closeHandler_def removeListener_def)

lemma step_close:
  "listeners s = attached \<Longrightarrow> step SshClose s = closeHandler s"
  "listeners s = attached \<Longrightarrow> listeners (closeHandler s) = ready_only"
  "listeners s = ready_only \<Longrightarrow> step SshClose s = s"
  "listeners s = [] \<Longrightarrow> step SshClose s = s"
  by (simp_all add: emit_def attached_def ready_only_def closeHandler_def removeListener_def)
lemma on_ready_fields:
  "promise (on_ready now s) = promise s"
  "trace (on_ready now s) =
     trace s @ [Console Log 153, UpdateLastConnected (conn_id (connDetails s)) (now div 1000)]"
  "awaitingUpdate (on_ready now s) = Some (now div 1000)"
  "connDetails (on_ready now s) = connDetails s"
  "lib (on_ready now s) = lib s"
  "socksPending (on_ready now s) = socksPending s"
  "connectConfig (on_ready now s) = connectConfig s"
  by (simp_all add: on_ready_def enhancedReadyHandler_def readyHandler_def Let_def
      removeListener_def did_def)

lemma step_ready:
  "listeners s = attached \<Longrightarrow> step (SshReady now) s = on_ready now s"
  "listeners s = ready_only \<Longrightarrow> step (SshReady now) s = on_ready now s"
  "listeners s = attached \<Longrightarrow> listeners (on_ready now s) = []"
  "listeners s = ready_only \<Longrightarrow> listeners (on_ready now s) = []"
  "listeners s = [] \<Longrightarrow> step (SshReady now) s = s"
  by (simp_all add: emit_def attached_def ready_only_def on_ready_def enhancedReadyHandler_def
      readyHandler_def Let_def removeListener_def did_def)

lemma updateSettled_fields:
  "promise (updateSettled r s) =
     (if awaitingUpdate s \<noteq> None \<and> promise s = Pending then Resolved else promise s)"
  "trace (updateSettled r s) =
     (case awaitingUpdate s of
        None \<Rightarrow> trace s
      | Some t \<Rightarrow> trace s @ [case r of None \<Rightarrow> Console Log 159 | Some x \<Rightarrow> Console Err 162,
                               Resolve])"
  "awaitingUpdate (updateSettled r s) = None"
  "connDetails (updateSettled r s) = connDetails s"
  "lib (updateSettled r s) = lib s"
  "listeners (updateSettled r s) = listeners s"
  "socksPending (updateSettled r s) = socksPending s"
  "connectConfig (updateSettled r s) = connectConfig s"
  by (simp_all add: updateSettled_def resolve_def did_def split: option.splits)

lemmas step_callbacks = step.simps(4-8)

declare step.simps [simp del]

lemma known_listeners_step: "known_listeners s \<Longrightarrow> known_listeners (step e s)"
  unfolding known_listeners_def
  by (cases e)
     (auto simp: step_error step_close step_ready step_callbacks errorHandler_listeners
        handleProxyError_listeners updateSettled_fields did_def Let_def
        split: sum.splits option.splits)

lemma executor_throw_fields:
  "promise (executor_throw e s) = (if promise s = Pending then Rejected e else promise s)"
  "trace (executor_throw e s) = trace s"
  "listeners (executor_throw e s) = listeners s"
  "awaitingUpdate (executor_throw e s) = awaitingUpdate s"
  "connDetails (executor_throw e s) = connDetails s"
  "lib (executor_throw e s) = lib s"
  "socksPending (executor_throw e s) = socksPending s"
  "connectConfig (executor_throw e s) = connectConfig s"
  by (simp_all add: executor_throw_def)

lemma establish_frame:
  "connDetails (establishSshConnection lb d timeout) = d"
  "lib (establishSshConnection lb d timeout) = lb"
  "awaitingUpdate (establishSshConnection lb d timeout) = None"
  "count_list (trace (establishSshConnection lb d timeout)) NewClient = 1"
  "promise (establishSshConnection lb d timeout) \<noteq> Resolved"
  by (simp_all add: establishSshConnection_def Let_def did_def handleProxyError_fields
      executor_throw_fields split: option.splits)

lemma establish_listeners:
  "supported d \<Longrightarrow> listeners (establishSshConnection lb d timeout) = attached"
  "\<not> supported d \<Longrightarrow> listeners (establishSshConnection lb d timeout) = ready_only"
  by (auto simp: supported_def establishSshConnection_def Let_def did_def attached_def
      executor_throw_fields handleProxyError_listeners split: option.splits)

lemma establish_quiet:
  assumes "supported d" "executor_throws lb d = None"
  shows "promise (establishSshConnection lb d timeout) = Pending"
    and "filter settle_call (trace (establishSshConnection lb d timeout)) = []"
    and "count_list (trace (establishSshConnection lb d timeout)) ClientEnd = 0"
  using assms
  by (auto simp: supported_def executor_throws_def establishSshConnection_def Let_def did_def
      split: option.splits if_splits)


lemma establish_known: "known_listeners (establishSshConnection lb d timeout)"
  using establish_listeners [of d lb timeout] by (auto simp: known_listeners_def)

lemma step_frame:
  "known_listeners s \<Longrightarrow> connDetails (step e s) = connDetails s \<and> lib (step e s) = lib s"
  unfolding known_listeners_def
  by (cases e)
     (auto simp: step_error step_close step_ready step_callbacks errorHandler_fields
        closeHandler_fields on_ready_fields handleProxyError_fields updateSettled_fields
        did_def Let_def split: sum.splits option.splits)

lemma run_frame:
  "known_listeners s \<Longrightarrow> connDetails (run s es) = connDetails s \<and> lib (run s es) = lib s"
  by (induction es arbitrary: s) (simp_all add: known_listeners_step step_frame)

lemma connect_needs_200_step:
  assumes "known_listeners s" "\<not> socksPending s" "ClientConnect c \<in> set (trace (step e s))"
  shows "ClientConnect c \<in> set (trace s) \<or> (\<exists>socket. e = HttpConnect 200 socket)"
  using assms unfolding known_listeners_def
  by (cases e)
     (auto simp: step_error step_close step_ready step_callbacks errorHandler_fields
        closeHandler_fields on_ready_fields handleProxyError_fields updateSettled_fields
        did_def Let_def split: sum.splits option.splits if_splits)

lemma socks_stays_settled:
  assumes "known_listeners s" "\<not> socksPending s"
  shows "\<not> socksPending (step e s)"
  using assms unfolding known_listeners_def
  by (cases e)
     (auto simp: step_error step_close step_ready step_callbacks errorHandler_fields
        closeHandler_fields on_ready_fields handleProxyError_fields updateSettled_fields
        did_def Let_def split: sum.splits option.splits if_splits)

lemma connect_needs_200_run:
  "known_listeners s \<Longrightarrow> \<not> socksPending s \<Longrightarrow> ClientConnect c \<in> set (trace (run s es)) \<Longrightarrow>
     ClientConnect c \<in> set (trace s) \<or> (\<exists>socket. HttpConnect 200 socket \<in> set es)"
proof (induction es arbitrary: s)
  case Nil
  then show ?case by simp
next
  case (Cons e es)
  from Cons.IH [OF known_listeners_step [OF Cons.prems(1)] socks_stays_settled [OF Cons.prems(1,2)]]
    Cons.prems(3)
  have "ClientConnect c \<in> set (trace (step e s)) \<or> (\<exists>socket. HttpConnect 200 socket \<in> set es)"
    by simp
  with connect_needs_200_step [OF Cons.prems(1,2)] show ?case by auto
qed

lemma establish_http:
  assumes "proxy d = Some p" "px_type p = ''HTTP''"
  shows "\<not> socksPending (establishSshConnection lb d timeout)"
    and "ClientConnect c \<notin> set (trace (establishSshConnection lb d timeout))"
  using assms
  by (auto simp: establishSshConnection_def Let_def did_def executor_throw_fields
      split: option.splits)

lemma sublist_middle: "sublist ys (xs @ ys @ zs)"
  by (metis sublist_appendI)

section \<open>The HTTP tunnel\<close>

text \<open>
  C3.  Take an attempt through an HTTP proxy whose CONNECT request was made
  (\<open>http.request()\<close> returned), after any events.  The client is connected only after a
  \<open>connect\<close> event of the request with status 200.  On a \<open>connect\<close> event with any
  other status, the socket is destroyed first, then \<open>errorHandler\<close> ends the client and
  rejects with the error of line 259; a pending promise becomes rejected with that error,
  and the message of the error contains the digits of the status code.
\<close>

theorem http_tunnel_needs_status_200:
  assumes http: "proxy d = Some p" "px_type p = ''HTTP''"
    and made: "request_throws lb = None"
  shows "(ClientConnect c \<in> set (trace (run (establishSshConnection lb d timeout) es)) \<longrightarrow>
            (\<exists>socket. HttpConnect 200 socket \<in> set es)) \<and>
         (statusCode \<noteq> 200 \<longrightarrow>
            trace (step (HttpConnect statusCode socket)
                     (run (establishSshConnection lb d timeout) es)) =
              trace (run (establishSshConnection lb d timeout) es) @
                [SocketDestroy socket, Console Err 212, Console Err 174, ClientEnd] @
                (case end_throws lb of None \<Rightarrow> [] | Some endError \<Rightarrow> [Console Err 180]) @
                [Reject (HttpProxyStatus (px_host p) (px_port p) statusCode)] \<and>
            promise (step (HttpConnect statusCode socket)
                       (run (establishSshConnection lb d timeout) es)) =
              (if promise (run (establishSshConnection lb d timeout) es) = Pending
               then Rejected (HttpProxyStatus (px_host p) (px_port p) statusCode)
               else promise (run (establishSshConnection lb d timeout) es)) \<and>
            sublist (string_of_nat statusCode)
              (message (HttpProxyStatus (px_host p) (px_port p) statusCode)))"
proof -
  define s where "s = run (establishSshConnection lb d timeout) es"
  have frame: "connDetails s = d" "lib s = lb"
    unfolding s_def by (simp_all add: run_frame [OF establish_known] establish_frame)
  have uses: "http_proxy s = Some p"
    using http made frame by (simp add: http_proxy_def)
  have only: "ClientConnect c \<in> set (trace s) \<longrightarrow> (\<exists>socket. HttpConnect 200 socket \<in> set es)"
    unfolding s_def
    using connect_needs_200_run [OF establish_known establish_http(1) [OF http], of c lb timeout es]
      establish_http(2) [OF http, of c lb timeout]
    by blast
  have msg: "sublist (string_of_nat statusCode)
      (message (HttpProxyStatus (px_host p) (px_port p) statusCode))"
    unfolding message.simps
    by (metis append.assoc sublist_middle)
  show ?thesis
    unfolding s_def [symmetric]
    using only msg
    by (simp add: step_callbacks uses handleProxyError_fields frame did_def)
qed

theorem http_tunnel_needs_status_200_witness:
  "ClientConnect
     \<lparr>cc_host = ''10.0.0.5'', cc_port = 22, cc_username = ''deploy'',
      cc_password = Some ''secret'', cc_privateKey = None, cc_passphrase = None,
      readyTimeout = 20000, keepaliveInterval = 5000, keepaliveCountMax = 10,
      cc_sock = Some 3\<rparr>
     \<in> set (trace (run (establishSshConnection example_library
                         (example_details\<lparr>proxy := Some example_http_proxy\<rparr>) 20000)
                    [HttpConnect 200 3])) \<and>
   (\<exists>socket. HttpConnect 200 socket \<in> set [HttpConnect 200 3]) \<and>
   promise (step (HttpConnect 407 3)
              (run (establishSshConnection example_library
                      (example_details\<lparr>proxy := Some example_http_proxy\<rparr>) 20000) [])) =
     Rejected (HttpProxyStatus ''10.0.0.2'' 3128 407) \<and>
   message (HttpProxyStatus ''10.0.0.2'' 3128 407) =
     ''HTTP proxy 10.0.0.2:3128 connection failed (status code: 407)'' \<and>
   sublist ''407'' (message (HttpProxyStatus ''10.0.0.2'' 3128 407)) \<and>
   trace (step (HttpConnect 407 3)
            (run (establishSshConnection example_library
                    (example_details\<lparr>proxy := Some example_http_proxy\<rparr>) 20000) [])) =
     trace (establishSshConnection example_library
              (example_details\<lparr>proxy := Some example_http_proxy\<rparr>) 20000) @
       [SocketDestroy 3, Console Err 212, Console Err 174, ClientEnd,
        Reject (HttpProxyStatus ''10.0.0.2'' 3128 407)]"
proof -
  have http: "proxy (example_details\<lparr>proxy := Some example_http_proxy\<rparr>) = Some example_http_proxy"
    "px_type example_http_proxy = ''HTTP''"
    by (simp_all add: example_http_proxy_def)
  have made: "request_throws example_library = None"
    and ends: "end_throws example_library = None"
    by (simp_all add: example_library_def)
  have sup: "supported (example_details\<lparr>proxy := Some example_http_proxy\<rparr>)"
    by (simp add: supported_def example_http_proxy_def)
  have quiet: "executor_throws example_library
      (example_details\<lparr>proxy := Some example_http_proxy\<rparr>) = None"
    by (simp add: executor_throws_def example_http_proxy_def example_library_def)
  have digits: "string_of_nat 407 = ''407''" "string_of_int 3128 = ''3128''"
    by code_simp+
  have pending: "promise (run (establishSshConnection example_library
      (example_details\<lparr>proxy := Some example_http_proxy\<rparr>) 20000) []) = Pending"
    by (simp add: establish_quiet [OF sup quiet])
  have connected: "ClientConnect
     \<lparr>cc_host = ''10.0.0.5'', cc_port = 22, cc_username = ''deploy'',
      cc_password = Some ''secret'', cc_privateKey = None, cc_passphrase = None,
      readyTimeout = 20000, keepaliveInterval = 5000, keepaliveCountMax = 10,
      cc_sock = Some 3\<rparr>
     \<in> set (trace (run (establishSshConnection example_library
                         (example_details\<lparr>proxy := Some example_http_proxy\<rparr>) 20000)
                    [HttpConnect 200 3]))"
    by (simp add: step_callbacks http_proxy_def establishSshConnection_def Let_def did_def
        example_details_def example_http_proxy_def example_library_def)
  note at_200 = http_tunnel_needs_status_200
      [where lb = example_library and timeout = 20000 and es = "[HttpConnect 200 3]",
       OF http made, THEN conjunct1, THEN mp, OF connected]
  note at_407 = http_tunnel_needs_status_200
      [where lb = example_library and timeout = 20000 and es = "[]" and statusCode = 407
         and socket = 3, OF http made, THEN conjunct2]
  from connected at_200 at_407 pending ends show ?thesis
    by (simp add: example_http_proxy_def digits)
qed

section \<open>The update of the last connection time\<close>

lemma ready_attached_step:
  "ready_attached s \<Longrightarrow> (\<forall>now. e \<noteq> SshReady now) \<Longrightarrow> ready_attached (step e s)"
  unfolding ready_attached_def
  by (cases e)
     (auto simp: step_error step_close step_callbacks errorHandler_listeners
        handleProxyError_listeners updateSettled_fields did_def Let_def
        split: sum.splits option.splits)

lemma ready_attached_run:
  "ready_attached s \<Longrightarrow> (\<forall>now. SshReady now \<notin> set es) \<Longrightarrow> ready_attached (run s es)"
proof (induction es arbitrary: s)
  case Nil
  then show ?case by simp
next
  case (Cons e es)
  from Cons.prems(2) have "\<forall>now. e \<noteq> SshReady now" "\<forall>now. SshReady now \<notin> set es" by auto
  with Cons.IH [OF ready_attached_step [OF Cons.prems(1)]] show ?case by simp
qed

lemma establish_ready_attached: "ready_attached (establishSshConnection lb d timeout)"
  using establish_listeners [of d lb timeout] by (auto simp: ready_attached_def)

text \<open>
  C5, as stated, fails: the result waits for the update.  \<open>readyHandler\<close> awaits
  \<open>updateLastConnected\<close> (line 158) before it calls \<open>resolve\<close> (line 165), so after
  \<open>ready\<close> and until the update settles the promise is pending and \<open>resolve\<close> has
  not been called.
\<close>

theorem update_delays_result_counterexample:
  "promise (run (establishSshConnection example_library example_details 20000) [SshReady 5000]) =
     Pending \<and>
   filter settle_call
     (trace (run (establishSshConnection example_library example_details 20000) [SshReady 5000])) =
     [] \<and>
   awaitingUpdate (run (establishSshConnection example_library example_details 20000)
                     [SshReady 5000]) = Some 5"
  by (simp add: establishSshConnection_def example_details_def example_library_def Let_def
      did_def step_ready attached_def [symmetric] on_ready_fields)

text \<open>
  C5, amended.  Take an attempt on which \<open>ready\<close> has not been emitted yet.  When
  \<open>ready\<close> comes, the attempt calls \<open>updateLastConnected\<close> and waits for it; the
  promise is not touched.  When the update settles, fulfilled or rejected, the attempt logs
  (line 159 or line 162) and calls \<open>resolve\<close>, and nothing else: a pending promise
  becomes resolved, and the failure of the update never rejects it.
\<close>

theorem last_connected_update_never_rejects:
  assumes no_ready: "\<forall>t. SshReady t \<notin> set es"
  shows "trace (step (SshReady now) (run (establishSshConnection lb d timeout) es)) =
           trace (run (establishSshConnection lb d timeout) es) @
             [Console Log 153, UpdateLastConnected (conn_id d) (now div 1000)] \<and>
         promise (step (SshReady now) (run (establishSshConnection lb d timeout) es)) =
           promise (run (establishSshConnection lb d timeout) es) \<and>
         trace (step (UpdateSettled r)
                  (step (SshReady now) (run (establishSshConnection lb d timeout) es))) =
           trace (step (SshReady now) (run (establishSshConnection lb d timeout) es)) @
             [case r of None \<Rightarrow> Console Log 159 | Some updateError \<Rightarrow> Console Err 162, Resolve] \<and>
         promise (step (UpdateSettled r)
                    (step (SshReady now) (run (establishSshConnection lb d timeout) es))) =
           (if promise (run (establishSshConnection lb d timeout) es) = Pending
            then Resolved else promise (run (establishSshConnection lb d timeout) es))"
proof -
  define s where "s = run (establishSshConnection lb d timeout) es"
  have ra: "ready_attached s"
    unfolding s_def by (rule ready_attached_run [OF establish_ready_attached no_ready])
  have d: "connDetails s = d"
    unfolding s_def by (simp add: run_frame [OF establish_known] establish_frame)
  have ready: "step (SshReady now) s = on_ready now s"
    using ra by (auto simp: ready_attached_def step_ready)
  show ?thesis
    unfolding s_def [symmetric] ready
    by (simp add: step_callbacks on_ready_fields updateSettled_fields d)
qed

theorem last_connected_update_never_rejects_witness:
  "promise (step (UpdateSettled (Some (Thrown ''database is locked'')))
              (step (SshReady 5000)
                 (run (establishSshConnection example_library example_details 20000) []))) =
     Resolved \<and>
   trace (step (UpdateSettled (Some (Thrown ''database is locked'')))
              (step (SshReady 5000)
                 (run (establishSshConnection example_library example_details 20000) []))) =
     trace (run (establishSshConnection example_library example_details 20000) []) @
       [Console Log 153, UpdateLastConnected 5 5, Console Err 162, Resolve]"
proof -
  have no_ready: "\<forall>t. SshReady t \<notin> set []" by simp
  have sup: "supported example_details"
    by (simp add: supported_def example_details_def)
  have quiet: "executor_throws example_library example_details = None"
    by (simp add: executor_throws_def example_details_def example_library_def)
  have pending: "promise (run (establishSshConnection example_library example_details 20000) []) =
      Pending"
    by (simp add: establish_quiet [OF sup quiet])
  have ident: "conn_id example_details = 5"
    by (simp add: example_details_def)
  from last_connected_update_never_rejects [OF no_ready, of 5000 example_library example_details
      20000 "Some (Thrown ''database is locked'')"] pending ident
  show ?thesis by simp
qed

section \<open>The test of an unsaved connection updates the profile \<open>-1\<close>\<close>

lemma update_recorded_step:
  assumes "known_listeners s" "update_recorded E s"
  shows "update_recorded (insert e E) (step e s)"
  using assms unfolding known_listeners_def update_recorded_def
  by (cases e)
     (auto simp: step_error step_close step_ready step_callbacks errorHandler_fields
        closeHandler_fields on_ready_fields handleProxyError_fields updateSettled_fields
        did_def Let_def split: sum.splits option.splits if_splits)

lemma update_recorded_mono: "update_recorded E s \<Longrightarrow> E \<subseteq> E' \<Longrightarrow> update_recorded E' s"
  unfolding update_recorded_def by blast

lemma update_recorded_await:
  "known_listeners s \<Longrightarrow> update_recorded E s \<Longrightarrow>
     update_recorded (E \<union> set es) (await_settled s es)"
proof (induction es arbitrary: s E)
  case Nil
  then show ?case by simp
next
  case (Cons e es)
  show ?case
  proof (cases "promise s = Pending")
    case True
    have "update_recorded (insert e E \<union> set es) (await_settled (step e s) es)"
      using Cons.IH [OF known_listeners_step [OF Cons.prems(1)]
          update_recorded_step [OF Cons.prems]] .
    with True show ?thesis by simp
  next
    case False
    with update_recorded_mono [OF Cons.prems(2), of "E \<union> set (e # es)"] show ?thesis by auto
  qed
qed

lemma await_frame:
  "known_listeners s \<Longrightarrow> connDetails (await_settled s es) = connDetails s"
  by (induction es arbitrary: s) (simp_all add: known_listeners_step step_frame)

lemma establish_update_recorded: "update_recorded {} (establishSshConnection lb d timeout)"
  by (simp add: update_recorded_def establish_frame)

text \<open>
  C10.  Whenever \<open>testUnsavedConnection\<close> returns a latency, a \<open>ready\<close> event has
  made the attempt call \<open>updateLastConnected\<close> with the identifier \<open>-1\<close> of the
  temporary details.
\<close>

theorem unsaved_test_updates_sentinel_profile:
  assumes "testUnsavedConnection env lb cfg t0 t1 evs = Some (tr, Inr latency)"
  shows "\<exists>now. SshReady now \<in> set evs \<and> UpdateLastConnected (- 1) (now div 1000) \<in> set tr"
proof -
  from assms obtain t d where res: "resolve_unsaved env cfg = (t, Inr d)"
    by (cases "resolve_unsaved env cfg"; cases "snd (resolve_unsaved env cfg)")
       (auto simp: testUnsavedConnection_def)
  define s where "s = await_settled (establishSshConnection lb d TEST_TIMEOUT) evs"
  from assms res have resolved: "promise s = Resolved"
    and tr: "tr = [Console Log 352] @ t @ trace s @ [Console Log 431, ClientEnd, Console Log 440]"
    by (auto simp: testUnsavedConnection_def Let_def s_def
        split: promise_state.splits option.splits)
  have "update_recorded ({} \<union> set evs) s"
    unfolding s_def by (rule update_recorded_await [OF establish_known establish_update_recorded])
  moreover have "connDetails s = d"
    unfolding s_def by (simp add: await_frame [OF establish_known] establish_frame)
  moreover have "conn_id d = - 1"
    using resolve_unsaved_exclusive [OF res] by simp
  ultimately show ?thesis
    using resolved tr by (auto simp: update_recorded_def)
qed

theorem unsaved_test_updates_sentinel_profile_witness:
  "testUnsavedConnection example_env example_library example_unsaved 100 130
     [SshReady 5000, UpdateSettled (Some (Thrown ''no such row''))] \<noteq> None \<and>
   (\<exists>now. SshReady now \<in> set [SshReady 5000, UpdateSettled (Some (Thrown ''no such row''))] \<and>
      UpdateLastConnected (- 1) (now div 1000) \<in>
        set (fst (the (testUnsavedConnection example_env example_library example_unsaved 100 130
                    [SshReady 5000, UpdateSettled (Some (Thrown ''no such row''))]))))"
proof -
  have "\<exists>tr. testUnsavedConnection example_env example_library example_unsaved 100 130
     [SshReady 5000, UpdateSettled (Some (Thrown ''no such row''))] = Some (tr, Inr 30)"
    by (simp add: testUnsavedConnection_def resolve_unsaved_def unsaved_credentials_def
        unsaved_proxy_def temp_details_def truthy_number_def example_unsaved_def
        example_library_def establishSshConnection_def Let_def did_def step_ready
        step_callbacks attached_def [symmetric] on_ready_fields updateSettled_fields)
  then obtain tr where r: "testUnsavedConnection example_env example_library example_unsaved
     100 130 [SshReady 5000, UpdateSettled (Some (Thrown ''no such row''))] = Some (tr, Inr 30)"
    by blast
  from unsaved_test_updates_sentinel_profile [OF r] r show ?thesis by simp
qed

section \<open>The tests end the client they create\<close>












text \<open>
  Two calls outside the amended statement.  When ssh2 refuses the configuration,
  \<open>connect()\<close> throws out of the promise executor: the call returns the error, and the
  client it created is not ended.  When \<open>close\<close> comes first, the promise of the attempt
  stays pending and the call does not return.
\<close>

lemma refused_configuration_is_not_ended:
  "\<exists>tr. testConnection example_env example_library_refusing 5 100 130 [] =
          Some (tr, Inl (Thrown ''Cannot parse privateKey'')) \<and>
        count_list tr NewClient = 1 \<and> count_list tr ClientEnd = 0"
proof -
  have saved: "getConnectionDetails example_env 5 =
     ([Console Log 45, FindFullConnectionById 5, Decrypt EncryptedPassword ''terces'',
       Console Log 118], Inr example_details)"
    by (simp add: getConnectionDetails_def resolve_body_def initial_details_def required_def
        resolve_credentials_def decrypt_call_def resolve_proxy_def truthy_number_def
        truthy_string_def example_env_def example_rows_def example_row_password_def
        example_row_def example_decrypt_def example_details_def)
  show ?thesis
    by (simp add: testConnection_def saved example_details_def example_library_def
        example_library_refusing_def establishSshConnection_def Let_def did_def
        executor_throw_def)
qed

lemma close_first_test_does_not_return:
  "testConnection example_env example_library 5 100 130
     [SshClose, SshError (Thrown ''reset'')] = None"
proof -
  have saved: "getConnectionDetails example_env 5 =
     ([Console Log 45, FindFullConnectionById 5, Decrypt EncryptedPassword ''terces'',
       Console Log 118], Inr example_details)"
    by (simp add: getConnectionDetails_def resolve_body_def initial_details_def required_def
        resolve_credentials_def decrypt_call_def resolve_proxy_def truthy_number_def
        truthy_string_def example_env_def example_rows_def example_row_password_def
        example_row_def example_decrypt_def example_details_def)
  show ?thesis
    by (simp add: testConnection_def saved example_details_def example_library_def
        establishSshConnection_def Let_def did_def step_close step_error
        attached_def [symmetric] closeHandler_fields)
qed

section \<open>A \<open>close\<close> before \<open>ready\<close>\<close>

text \<open>
  C1.  The code breaks the claim.  Its documentation promises an error when the connection
  fails (line 131), and \<open>closeHandler\<close> leaves the rejection to the \<open>error\<close>
  listener (line 192), which it has just removed (line 189).  So on a direct attempt a
  \<open>close\<close> that comes before \<open>ready\<close> settles nothing: the promise stays pending,
  neither \<open>resolve\<close> nor \<open>reject\<close> is called, and only the \<open>ready\<close> listener is
  left.  An \<open>error\<close> that follows finds no listener: the emitter throws it, the promise
  is still pending, and \<open>end()\<close> has not been called.
\<close>

theorem close_before_ready_settles_nothing:
  "promise (run (establishSshConnection example_library example_details CONNECT_TIMEOUT)
              [SshClose]) = Pending \<and>
   filter settle_call
     (trace (run (establishSshConnection example_library example_details CONNECT_TIMEOUT)
               [SshClose])) = [] \<and>
   listeners (run (establishSshConnection example_library example_details CONNECT_TIMEOUT)
                [SshClose]) = [(''ready'', EnhancedReadyHandler, True)] \<and>
   promise (run (establishSshConnection example_library example_details CONNECT_TIMEOUT)
              [SshClose, SshError (Thrown ''reset'')]) = Pending \<and>
   filter settle_call
     (trace (run (establishSshConnection example_library example_details CONNECT_TIMEOUT)
               [SshClose, SshError (Thrown ''reset'')])) = [] \<and>
   trace (run (establishSshConnection example_library example_details CONNECT_TIMEOUT)
            [SshClose, SshError (Thrown ''reset'')]) =
     trace (establishSshConnection example_library example_details CONNECT_TIMEOUT) @
       [UnhandledError (Thrown ''reset'')] \<and>
   count_list
     (trace (run (establishSshConnection example_library example_details CONNECT_TIMEOUT)
               [SshClose, SshError (Thrown ''reset'')])) ClientEnd = 0"
  by (simp add: establishSshConnection_def example_details_def example_library_def Let_def
      did_def step_close step_error attached_def [symmetric] closeHandler_fields
      ready_only_def [symmetric])

end
